theory Spec2Isabelle
  imports Complex_Main
begin

section \<open>Python and NumPy floating-point values\<close>

text \<open>
  The analysis pipeline of Stock Hunter Pro computes with Python floats and NumPy
  \<open>float64\<close> scalars. A value is modelled as a finite real number or one of the
  three special values. Finite arithmetic is exact (no rounding, no overflow to an
  infinity, no signed zero); the special values follow IEEE 754, because the code's
  control flow depends on them: every comparison with \<open>NaN\<close> is false,
  \<open>int(nan)\<close> raises, and NumPy division by zero yields an infinity or \<open>NaN\<close>
  where Python's own float division raises.
\<close>

datatype pyfloat = Fin real | PInf | NInf | NaN

datatype exn = ValueError | OverflowError | ZeroDivisionError | IndexError

fun isna :: "pyfloat \<Rightarrow> bool" where
  "isna NaN = True"
| "isna _ = False"

fun is_finite :: "pyfloat \<Rightarrow> bool" where
  "is_finite (Fin _) = True"
| "is_finite _ = False"

fun pf_neg :: "pyfloat \<Rightarrow> pyfloat" where
  "pf_neg (Fin a) = Fin (- a)"
| "pf_neg PInf = NInf"
| "pf_neg NInf = PInf"
| "pf_neg NaN = NaN"

fun pf_abs :: "pyfloat \<Rightarrow> pyfloat" where
  "pf_abs (Fin a) = Fin \<bar>a\<bar>"
| "pf_abs PInf = PInf"
| "pf_abs NInf = PInf"
| "pf_abs NaN = NaN"

fun pf_add :: "pyfloat \<Rightarrow> pyfloat \<Rightarrow> pyfloat" where
  "pf_add (Fin a) (Fin b) = Fin (a + b)"
| "pf_add (Fin a) PInf = PInf"
| "pf_add (Fin a) NInf = NInf"
| "pf_add PInf (Fin b) = PInf"
| "pf_add PInf PInf = PInf"
| "pf_add PInf NInf = NaN"
| "pf_add NInf (Fin b) = NInf"
| "pf_add NInf PInf = NaN"
| "pf_add NInf NInf = NInf"
| "pf_add NaN _ = NaN"
| "pf_add _ NaN = NaN"

definition pf_sub :: "pyfloat \<Rightarrow> pyfloat \<Rightarrow> pyfloat" where
  "pf_sub a b = pf_add a (pf_neg b)"

text \<open>The sign of a product or quotient with an infinite operand.\<close>

definition signed_inf :: "real \<Rightarrow> pyfloat" where
  "signed_inf s = (if s > 0 then PInf else if s < 0 then NInf else NaN)"

fun pf_mul :: "pyfloat \<Rightarrow> pyfloat \<Rightarrow> pyfloat" where
  "pf_mul (Fin a) (Fin b) = Fin (a * b)"
| "pf_mul (Fin a) PInf = signed_inf a"
| "pf_mul (Fin a) NInf = signed_inf (- a)"
| "pf_mul PInf (Fin b) = signed_inf b"
| "pf_mul NInf (Fin b) = signed_inf (- b)"
| "pf_mul PInf PInf = PInf"
| "pf_mul PInf NInf = NInf"
| "pf_mul NInf PInf = NInf"
| "pf_mul NInf NInf = PInf"
| "pf_mul NaN _ = NaN"
| "pf_mul _ NaN = NaN"

text \<open>
  NumPy's \<open>float64\<close> true division: a zero divisor gives an infinity (or \<open>NaN\<close> for
  \<open>0/0\<close>) and a warning, never an exception.
\<close>

fun np_div :: "pyfloat \<Rightarrow> pyfloat \<Rightarrow> pyfloat" where
  "np_div (Fin a) (Fin b) = (if b = 0 then signed_inf a else Fin (a / b))"
| "np_div (Fin a) PInf = Fin 0"
| "np_div (Fin a) NInf = Fin 0"
| "np_div PInf (Fin b) = (if b < 0 then NInf else PInf)"
| "np_div NInf (Fin b) = (if b < 0 then PInf else NInf)"
| "np_div PInf PInf = NaN"
| "np_div PInf NInf = NaN"
| "np_div NInf PInf = NaN"
| "np_div NInf NInf = NaN"
| "np_div NaN _ = NaN"
| "np_div _ NaN = NaN"

text \<open>Python's own float division raises \<open>ZeroDivisionError\<close> on a zero divisor.\<close>

definition py_div :: "pyfloat \<Rightarrow> pyfloat \<Rightarrow> exn + pyfloat" where
  "py_div a b = (if b = Fin 0 then Inl ZeroDivisionError else Inr (np_div a b))"

fun pf_lt :: "pyfloat \<Rightarrow> pyfloat \<Rightarrow> bool" where
  "pf_lt (Fin a) (Fin b) = (a < b)"
| "pf_lt (Fin a) PInf = True"
| "pf_lt NInf (Fin b) = True"
| "pf_lt NInf PInf = True"
| "pf_lt _ _ = False"

fun pf_le :: "pyfloat \<Rightarrow> pyfloat \<Rightarrow> bool" where
  "pf_le (Fin a) (Fin b) = (a \<le> b)"
| "pf_le (Fin a) PInf = True"
| "pf_le NInf (Fin b) = True"
| "pf_le NInf PInf = True"
| "pf_le PInf PInf = True"
| "pf_le NInf NInf = True"
| "pf_le _ _ = False"

definition pf_gt :: "pyfloat \<Rightarrow> pyfloat \<Rightarrow> bool" where
  "pf_gt a b = pf_lt b a"

definition pf_ge :: "pyfloat \<Rightarrow> pyfloat \<Rightarrow> bool" where
  "pf_ge a b = pf_le b a"

text \<open>Truthiness of a number: everything but zero, \<open>NaN\<close> included.\<close>

definition truthy :: "pyfloat \<Rightarrow> bool" where
  "truthy x = (x \<noteq> Fin 0)"

text \<open>The builtin \<open>min(a, b)\<close> returns \<open>a\<close> unless \<open>b < a\<close>.\<close>

definition py_min :: "pyfloat \<Rightarrow> pyfloat \<Rightarrow> pyfloat" where
  "py_min a b = (if pf_lt b a then b else a)"

text \<open>
  \<open>int(x)\<close> truncates toward zero; it raises \<open>ValueError\<close> on \<open>NaN\<close> and
  \<open>OverflowError\<close> on an infinity.
\<close>

fun py_int :: "pyfloat \<Rightarrow> exn + int" where
  "py_int (Fin a) = Inr (if a \<ge> 0 then \<lfloor>a\<rfloor> else \<lceil>a\<rceil>)"
| "py_int PInf = Inl OverflowError"
| "py_int NInf = Inl OverflowError"
| "py_int NaN = Inl ValueError"

text \<open>
  \<open>round(x, n)\<close> rounds the decimal expansion of \<open>x\<close> to \<open>n\<close> places, ties to even;
  the special values pass through.
\<close>

definition round_half_even :: "real \<Rightarrow> int" where
  "round_half_even r =
     (let f = \<lfloor>r\<rfloor>; d = r - of_int f
      in if d < 1 / 2 then f else if d > 1 / 2 then f + 1
         else if even f then f else f + 1)"

fun py_round :: "pyfloat \<Rightarrow> nat \<Rightarrow> pyfloat" where
  "py_round (Fin a) n = Fin (of_int (round_half_even (a * 10 ^ n)) / 10 ^ n)"
| "py_round x n = x"

text \<open>\<open>sum(xs)\<close> adds from the left, starting at 0.\<close>

definition py_sum :: "pyfloat list \<Rightarrow> pyfloat" where
  "py_sum xs = foldl pf_add (Fin 0) xs"

text \<open>Chaining of steps that may raise: the first exception wins.\<close>

definition try_bind :: "exn + 'a \<Rightarrow> ('a \<Rightarrow> exn + 'b) \<Rightarrow> exn + 'b" where
  "try_bind m f = (case m of Inl e \<Rightarrow> Inl e | Inr x \<Rightarrow> f x)"

section \<open>RS rating: conversion of relative performance to the 1-99 scale\<close>

text \<open>
  \<open>RSRatingCalculator._convert_to_rs_scale\<close>. The body of the \<open>try\<close> block computes
  the band rating; \<open>int\<close> may raise, which the \<open>except\<close> clause turns into rating 1.
\<close>

definition band_rating :: "pyfloat \<Rightarrow> exn + int" where
  "band_rating relative_performance =
     (if pf_ge relative_performance (Fin 50) then
        (let excess = py_min (pf_sub relative_performance (Fin 50)) (Fin 50)
         in try_bind (py_int (pf_mul (np_div excess (Fin 50)) (Fin 9))) (\<lambda>k. Inr (90 + k)))
      else if pf_ge relative_performance (Fin 20) then
        try_bind (py_int (pf_mul (np_div (pf_sub relative_performance (Fin 20)) (Fin 30)) (Fin 9)))
          (\<lambda>k. Inr (80 + k))
      else if pf_ge relative_performance (Fin 5) then
        try_bind (py_int (pf_mul (np_div (pf_sub relative_performance (Fin 5)) (Fin 15)) (Fin 9)))
          (\<lambda>k. Inr (70 + k))
      else if pf_ge relative_performance (Fin (- 5)) then
        try_bind (py_int (pf_mul (np_div (pf_add relative_performance (Fin 5)) (Fin 10)) (Fin 19)))
          (\<lambda>k. Inr (50 + k))
      else
        (let negative_excess = py_min (pf_abs (pf_add relative_performance (Fin 5))) (Fin 45)
         in try_bind (py_int (pf_mul (np_div negative_excess (Fin 45)) (Fin 48)))
              (\<lambda>k. Inr (49 - k))))"

definition convert_to_rs_scale :: "pyfloat \<Rightarrow> int" where
  "convert_to_rs_scale relative_performance =
     (case band_rating relative_performance of
        Inl e \<Rightarrow> 1
      | Inr rating \<Rightarrow> max 1 (min 99 rating))"

section \<open>Price history and pandas series\<close>

text \<open>
  A daily OHLCV frame as the price-history provider returns it: one row per bar, the index
  label (the trading date, as a day number) and the five columns. Values may be any float,
  \<open>NaN\<close> included; the rows may come in any order and labels may repeat.
\<close>

record bar =
  Date :: int
  Open :: pyfloat
  High :: pyfloat
  Low :: pyfloat
  Close :: pyfloat
  Volume :: pyfloat

type_synonym frame = "bar list"

type_synonym series = "(int \<times> pyfloat) list"

definition column :: "(bar \<Rightarrow> pyfloat) \<Rightarrow> frame \<Rightarrow> series" where
  "column f df = map (\<lambda>b. (Date b, f b)) df"

text \<open>
  \<open>xs.iloc[-k]\<close>: position \<open>len - k\<close>, \<open>IndexError\<close> out of range (\<open>-0\<close> is
  position 0).
\<close>

definition iloc_neg :: "'a list \<Rightarrow> nat \<Rightarrow> exn + 'a" where
  "iloc_neg xs k =
     (if k = 0 then (if xs = [] then Inl IndexError else Inr (xs ! 0))
      else if k \<le> length xs then Inr (xs ! (length xs - k))
      else Inl IndexError)"

text \<open>\<open>Index.intersection\<close>: the labels of both indexes, each once.\<close>

definition index_intersection :: "int list \<Rightarrow> int list \<Rightarrow> int list" where
  "index_intersection xs ys = remdups (filter (\<lambda>d. d \<in> set ys) xs)"

text \<open>
  \<open>Series.reindex\<close>: the values at the given labels, \<open>NaN\<close> where a label is absent.
  A series whose own labels repeat cannot be reindexed (\<open>ValueError\<close>), unless the target
  is its own index.
\<close>

definition reindex :: "series \<Rightarrow> int list \<Rightarrow> exn + series" where
  "reindex s idx =
     (if map fst s = idx then Inr s
      else if \<not> distinct (map fst s) then Inl ValueError
      else Inr (map (\<lambda>d. (d, case map_of s d of None \<Rightarrow> NaN | Some v \<Rightarrow> v)) idx))"

definition dropna :: "series \<Rightarrow> series" where
  "dropna s = filter (\<lambda>p. \<not> isna (snd p)) s"

definition sort_index :: "series \<Rightarrow> series" where
  "sort_index s = sort_key fst s"

section \<open>RS rating engine\<close>

text \<open>\<open>RSRatingCalculator._align_data\<close>: the \<open>try\<close> body, then the \<open>except\<close> clause.\<close>

definition align_data_body :: "frame \<Rightarrow> frame \<Rightarrow> exn + (series \<times> series)" where
  "align_data_body stock_frame sp500_frame =
     (let stock_closes = column Close stock_frame;
          sp500_closes = column Close sp500_frame;
          common_dates = index_intersection (map fst stock_closes) (map fst sp500_closes)
      in if length common_dates = 0 then Inr ([], [])
         else
           try_bind (reindex stock_closes common_dates) (\<lambda>s1.
           let aligned_stock = dropna s1 in
           try_bind (reindex sp500_closes common_dates) (\<lambda>s2.
           let aligned_sp500 = dropna s2;
               final_dates = index_intersection (map fst aligned_stock) (map fst aligned_sp500)
           in
           try_bind (reindex aligned_stock final_dates) (\<lambda>a1.
           try_bind (reindex aligned_sp500 final_dates) (\<lambda>a2.
             Inr (sort_index a1, sort_index a2))))))"

definition align_data :: "frame \<Rightarrow> frame \<Rightarrow> series \<times> series" where
  "align_data stock_frame sp500_frame =
     (case align_data_body stock_frame sp500_frame of
        Inl e \<Rightarrow> ([], [])
      | Inr r \<Rightarrow> r)"

text \<open>
  \<open>RSRatingCalculator._calculate_period_performance\<close>. The prices are NumPy scalars, so
  a zero start price divides to an infinity or \<open>NaN\<close> without raising.
\<close>

definition calculate_period_performance_body ::
    "series \<Rightarrow> series \<Rightarrow> nat \<Rightarrow> exn + pyfloat option" where
  "calculate_period_performance_body stock_prices sp500_prices period =
     (if length stock_prices < period then Inr None
      else
        try_bind (iloc_neg (map snd stock_prices) 1) (\<lambda>end_price_stock.
        try_bind (iloc_neg (map snd stock_prices) period) (\<lambda>start_price_stock.
        try_bind (iloc_neg (map snd sp500_prices) 1) (\<lambda>end_price_sp500.
        try_bind (iloc_neg (map snd sp500_prices) period) (\<lambda>start_price_sp500.
          let stock_return =
                pf_mul (np_div (pf_sub end_price_stock start_price_stock) start_price_stock)
                  (Fin 100);
              sp500_return =
                pf_mul (np_div (pf_sub end_price_sp500 start_price_sp500) start_price_sp500)
                  (Fin 100);
              relative_performance = pf_sub stock_return sp500_return
          in Inr (Some relative_performance))))))"

definition calculate_period_performance :: "series \<Rightarrow> series \<Rightarrow> nat \<Rightarrow> pyfloat option" where
  "calculate_period_performance stock_prices sp500_prices period =
     (case calculate_period_performance_body stock_prices sp500_prices period of
        Inl e \<Rightarrow> None
      | Inr r \<Rightarrow> r)"

definition periods :: "nat list" where
  "periods = [63, 126, 189, 252]"

definition weights :: "pyfloat list" where
  "weights = [Fin (4 / 10), Fin (2 / 10), Fin (2 / 10), Fin (2 / 10)]"

section \<open>Stock data dictionaries\<close>

text \<open>
  The dictionary that \<open>DataFetcher._calculate_indicators\<close> returns and that the RS
  calculator and the criteria analyzer read with \<open>dict.get\<close>. A key may be absent
  (\<open>None\<close>): the error dictionary holds \<open>symbol\<close> and \<open>error\<close> only.
\<close>

record stock_data =
  symbol :: "string option"
  error :: "string option"
  price :: "pyfloat option"
  ma_50 :: "pyfloat option"
  ma_150 :: "pyfloat option"
  ma_200 :: "pyfloat option"
  week_52_high :: "pyfloat option"
  week_52_low :: "pyfloat option"
  from_high_pct :: "pyfloat option"
  from_low_pct :: "pyfloat option"
  ma_50_trending_up :: "bool option"
  ma_150_trending_up :: "bool option"
  ma_200_trending_up :: "bool option"
  price_vs_ma_50 :: "pyfloat option"
  price_vs_ma_150 :: "pyfloat option"
  price_vs_ma_200 :: "pyfloat option"
  volume :: "int option"
  avg_volume :: "int option"
  volume_ratio :: "pyfloat option"
  historical_data :: "frame option"

definition empty_dict :: stock_data where
  "empty_dict =
     \<lparr>symbol = None, error = None, price = None, ma_50 = None, ma_150 = None,
      ma_200 = None, week_52_high = None, week_52_low = None, from_high_pct = None,
      from_low_pct = None, ma_50_trending_up = None, ma_150_trending_up = None,
      ma_200_trending_up = None, price_vs_ma_50 = None, price_vs_ma_150 = None,
      price_vs_ma_200 = None, volume = None, avg_volume = None, volume_ratio = None,
      historical_data = None\<rparr>"

text \<open>\<open>d.get(key, default)\<close>.\<close>

definition dict_get :: "'a option \<Rightarrow> 'a \<Rightarrow> 'a" where
  "dict_get v dflt = (case v of None \<Rightarrow> dflt | Some x \<Rightarrow> x)"

text \<open>
  The loop of \<open>calculate_rs_rating\<close> over the four periods and their weights: the
  weighted relative performance of each period, and 0 for a period that cannot be
  computed.
\<close>

definition weighted_period_performances :: "series \<Rightarrow> series \<Rightarrow> pyfloat list" where
  "weighted_period_performances aligned_stock aligned_sp500 =
     map (\<lambda>(period, weight).
            case calculate_period_performance aligned_stock aligned_sp500 period of
              Some performance \<Rightarrow> pf_mul performance weight
            | None \<Rightarrow> Fin 0)
       (zip periods weights)"

text \<open>
  \<open>RSRatingCalculator.calculate_rs_rating\<close>. The benchmark frame is what
  \<open>_get_sp500_data\<close> returned (\<open>None\<close> when the download failed). Every step of the
  \<open>try\<close> block either is total on frames or handles its own exceptions, so the outer
  \<open>except\<close> clause (rating 1) has no branch of its own here.
\<close>

definition calculate_rs_rating :: "stock_data \<Rightarrow> frame option \<Rightarrow> int" where
  "calculate_rs_rating sd sp500 =
     (case historical_data sd of
        None \<Rightarrow> 1
      | Some hist_data \<Rightarrow>
          if hist_data = [] then 1
          else
            (case sp500 of
               None \<Rightarrow> 1
             | Some sp500_data \<Rightarrow>
                 (let (aligned_stock, aligned_sp500) = align_data hist_data sp500_data
                  in if length aligned_stock < 63 then 50
                     else
                       (let period_performances =
                              weighted_period_performances aligned_stock aligned_sp500
                        in if period_performances = [] then 1
                           else
                             (let total_relative_performance = py_sum period_performances
                              in convert_to_rs_scale total_relative_performance)))))"

section \<open>Indicator engine\<close>

text \<open>
  \<open>Series.rolling(window, min_periods).mean()\<close>: at each position the mean of the
  observations of the trailing window, and \<open>NaN\<close> when fewer than \<open>min_periods\<close> of
  them exist. A rolling window counts only finite values as observations: pandas turns
  the infinities of the column into \<open>NaN\<close> before it rolls, so \<open>NaN\<close>, \<open>inf\<close> and
  \<open>-inf\<close> are all missing here (unlike \<open>Series.max\<close>, \<open>min\<close> and \<open>mean\<close> below,
  which skip \<open>NaN\<close> only).
\<close>

definition window_mean :: "nat \<Rightarrow> pyfloat list \<Rightarrow> pyfloat" where
  "window_mean min_periods ws =
     (let vals = filter is_finite ws
      in if length vals < min_periods then NaN
         else np_div (py_sum vals) (Fin (real (length vals))))"

definition window_at :: "nat \<Rightarrow> 'a list \<Rightarrow> nat \<Rightarrow> 'a list" where
  "window_at w xs i = drop (Suc i - w) (take (Suc i) xs)"

definition rolling_mean :: "nat \<Rightarrow> nat \<Rightarrow> pyfloat list \<Rightarrow> pyfloat list" where
  "rolling_mean w min_periods xs =
     map (\<lambda>i. window_mean min_periods (window_at w xs i)) [0..<length xs]"

text \<open>\<open>Series.tail(n)\<close>, and \<open>max\<close>, \<open>min\<close> and \<open>mean\<close>, which skip \<open>NaN\<close>.\<close>

definition tail :: "nat \<Rightarrow> 'a list \<Rightarrow> 'a list" where
  "tail n xs = drop (length xs - n) xs"

definition series_max :: "pyfloat list \<Rightarrow> pyfloat" where
  "series_max xs =
     (case filter (\<lambda>v. \<not> isna v) xs of
        [] \<Rightarrow> NaN
      | v # vs \<Rightarrow> fold (\<lambda>a m. if pf_gt a m then a else m) vs v)"

definition series_min :: "pyfloat list \<Rightarrow> pyfloat" where
  "series_min xs =
     (case filter (\<lambda>v. \<not> isna v) xs of
        [] \<Rightarrow> NaN
      | v # vs \<Rightarrow> fold (\<lambda>a m. if pf_lt a m then a else m) vs v)"

definition series_mean :: "pyfloat list \<Rightarrow> pyfloat" where
  "series_mean xs =
     (case filter (\<lambda>v. \<not> isna v) xs of
        [] \<Rightarrow> NaN
      | v # vs \<Rightarrow> np_div (py_sum (v # vs)) (Fin (real (length (v # vs)))))"

text \<open>\<open>DataFetcher._is_trending_up\<close>: the \<open>try\<close> body, then \<open>except: return False\<close>.\<close>

definition is_trending_up_body :: "pyfloat list \<Rightarrow> nat \<Rightarrow> exn + bool" where
  "is_trending_up_body ma_series lookback =
     (if length ma_series < lookback + 1 then Inr False
      else
        try_bind (iloc_neg ma_series 1) (\<lambda>recent.
        try_bind (iloc_neg ma_series (lookback + 1)) (\<lambda>older.
          if isna recent \<or> isna older then Inr False
          else Inr (pf_gt recent older))))"

definition is_trending_up :: "pyfloat list \<Rightarrow> nat \<Rightarrow> bool" where
  "is_trending_up ma_series lookback =
     (case is_trending_up_body ma_series lookback of
        Inl e \<Rightarrow> False
      | Inr b \<Rightarrow> b)"

text \<open>
  The volume block of \<open>_calculate_indicators\<close>, with its own \<open>try\<close>: average volume,
  latest volume and their ratio, or the defaults when \<open>int\<close> raises on a \<open>NaN\<close>.
\<close>

definition volume_analysis_body :: "frame \<Rightarrow> exn + (int \<times> int \<times> pyfloat)" where
  "volume_analysis_body hist =
     try_bind (py_int (series_mean (tail 50 (map Volume hist)))) (\<lambda>avg_volume.
     try_bind (iloc_neg (map Volume hist) 1) (\<lambda>last_volume.
     try_bind (py_int last_volume) (\<lambda>recent_volume.
       Inr (avg_volume, recent_volume,
            if avg_volume > 0
            then np_div (Fin (of_int recent_volume)) (Fin (of_int avg_volume))
            else Fin 1))))"

definition volume_analysis :: "frame \<Rightarrow> int \<times> int \<times> pyfloat" where
  "volume_analysis hist =
     (case volume_analysis_body hist of
        Inl e \<Rightarrow> (1000000, 1000000, Fin 1)
      | Inr r \<Rightarrow> r)"

text \<open>Price relative to a moving average, guarded by \<open>ma > 0\<close>.\<close>

definition price_vs_ma :: "pyfloat \<Rightarrow> pyfloat \<Rightarrow> exn + pyfloat" where
  "price_vs_ma current_price ma =
     (if pf_gt ma (Fin 0)
      then try_bind (py_div (pf_sub current_price ma) ma) (\<lambda>q.
             Inr (py_round (pf_mul q (Fin 100)) 1))
      else Inr (Fin 0))"

text \<open>The text of an exception, \<open>str(e)\<close>.\<close>

fun exn_message :: "exn \<Rightarrow> string" where
  "exn_message ZeroDivisionError = ''float division by zero''"
| "exn_message IndexError = ''single positional indexer is out-of-bounds''"
| "exn_message ValueError = ''cannot convert float NaN to integer''"
| "exn_message OverflowError = ''cannot convert float infinity to integer''"

text \<open>
  \<open>DataFetcher._calculate_indicators\<close>. The percentage offsets divide Python floats, so
  a 52-week extreme of zero raises \<open>ZeroDivisionError\<close>, which the outer \<open>except\<close> turns
  into the error dictionary. The rolling means never raise on a numeric column, so the
  inner \<open>except\<close> (reduced windows) has no branch here. The frame stored under
  \<open>historical_data\<close> is the input frame; its three added moving-average columns, which
  nothing reads afterwards, are left out.
\<close>

definition calculate_indicators_body :: "frame \<Rightarrow> string \<Rightarrow> exn + stock_data" where
  "calculate_indicators_body hist symb =
     (if length hist < 50
      then Inr (empty_dict\<lparr>symbol := Some symb, error := Some ''Insufficient data''\<rparr>)
      else
        try_bind (iloc_neg (map Close hist) 1) (\<lambda>current_price.
        let MA_50 = rolling_mean 50 25 (map Close hist);
            MA_150 = rolling_mean 150 75 (map Close hist);
            MA_200 = rolling_mean 200 100 (map Close hist);
            lookback_days = min 252 (length hist);
            high_52 = series_max (tail lookback_days (map High hist));
            low_52 = series_min (tail lookback_days (map Low hist))
        in
        try_bind (iloc_neg MA_50 1) (\<lambda>last_50.
        try_bind (iloc_neg MA_150 1) (\<lambda>last_150.
        try_bind (iloc_neg MA_200 1) (\<lambda>last_200.
        let m_50 = (if \<not> isna last_50 then last_50 else current_price);
            m_150 = (if \<not> isna last_150 then last_150 else current_price);
            m_200 = (if \<not> isna last_200 then last_200 else current_price);
            ma_50_trending = is_trending_up MA_50 20;
            ma_150_trending = is_trending_up MA_150 20;
            ma_200_trending = is_trending_up MA_200 20
        in
        try_bind (py_div (pf_sub current_price high_52) high_52) (\<lambda>q_high.
        try_bind (py_div (pf_sub current_price low_52) low_52) (\<lambda>q_low.
        let (avg_vol, recent_volume, vol_ratio) = volume_analysis hist in
        try_bind (price_vs_ma current_price m_50) (\<lambda>vs_50.
        try_bind (price_vs_ma current_price m_150) (\<lambda>vs_150.
        try_bind (price_vs_ma current_price m_200) (\<lambda>vs_200.
          Inr \<lparr>symbol = Some symb, error = None,
               price = Some (py_round current_price 2),
               ma_50 = Some (py_round m_50 2),
               ma_150 = Some (py_round m_150 2),
               ma_200 = Some (py_round m_200 2),
               week_52_high = Some (py_round high_52 2),
               week_52_low = Some (py_round low_52 2),
               from_high_pct = Some (py_round (pf_mul q_high (Fin 100)) 1),
               from_low_pct = Some (py_round (pf_mul q_low (Fin 100)) 1),
               ma_50_trending_up = Some ma_50_trending,
               ma_150_trending_up = Some ma_150_trending,
               ma_200_trending_up = Some ma_200_trending,
               price_vs_ma_50 = Some vs_50,
               price_vs_ma_150 = Some vs_150,
               price_vs_ma_200 = Some vs_200,
               volume = Some recent_volume,
               avg_volume = Some avg_vol,
               volume_ratio = Some (py_round vol_ratio 2),
               historical_data = Some hist\<rparr>))))))))))"

definition calculate_indicators :: "frame \<Rightarrow> string \<Rightarrow> stock_data" where
  "calculate_indicators hist symb =
     (case calculate_indicators_body hist symb of
        Inl e \<Rightarrow> empty_dict\<lparr>symbol := Some symb, error := Some (exn_message e)\<rparr>
      | Inr d \<Rightarrow> d)"

section \<open>String formatting\<close>

text \<open>
  Decimal text of integers, and the fixed-point format \<open>f"{x:.nf}"\<close>: the magnitude
  rounded to \<open>n\<close> places (ties to even), a minus sign for a negative value, and
  \<open>inf\<close>, \<open>-inf\<close>, \<open>nan\<close> for the special values. Strings are UTF-8 byte lists, so
  the few non-ASCII signs of the messages are spelt out as bytes.
\<close>

definition digit_char :: "nat \<Rightarrow> char" where
  "digit_char d = ''0123456789'' ! d"

function str_nat :: "nat \<Rightarrow> string" where
  "str_nat n = (if n < 10 then [digit_char n] else str_nat (n div 10) @ [digit_char (n mod 10)])"
  by pat_completeness auto
termination
  by (relation "measure id") auto

declare str_nat.simps [simp del]

definition str_int :: "int \<Rightarrow> string" where
  "str_int i = (if i < 0 then CHR ''-'' # str_nat (nat (- i)) else str_nat (nat i))"

definition zero_pad :: "nat \<Rightarrow> string \<Rightarrow> string" where
  "zero_pad n s = replicate (n - length s) CHR ''0'' @ s"

fun format_fixed :: "nat \<Rightarrow> pyfloat \<Rightarrow> string" where
  "format_fixed n (Fin a) =
     (let k = nat (round_half_even (\<bar>a\<bar> * 10 ^ n))
      in (if a < 0 then ''-'' else []) @ str_nat (k div 10 ^ n) @
         (if n = 0 then [] else CHR ''.'' # zero_pad n (str_nat (k mod 10 ^ n))))"
| "format_fixed n PInf = ''inf''"
| "format_fixed n NInf = ''-inf''"
| "format_fixed n NaN = ''nan''"

definition ge_sign :: string where
  "ge_sign = [CHR 0xE2, CHR 0x89, CHR 0xA5]"

definition le_sign :: string where
  "le_sign = [CHR 0xE2, CHR 0x89, CHR 0xA4]"

definition check_mark :: string where
  "check_mark = [CHR 0xE2, CHR 0x9C, CHR 0x85]"

definition warning_sign :: string where
  "warning_sign = [CHR 0xE2, CHR 0x9A, CHR 0xA0, CHR 0xEF, CHR 0xB8, CHR 0x8F]"

section \<open>Criteria evaluator\<close>

text \<open>
  One rule's outcome and the verdict dictionary that \<open>MinerviniAnalyzer\<close> returns. The
  keys \<open>technical_score\<close>, \<open>summary\<close>, \<open>symbol\<close> and \<open>rs_rating\<close> are absent from
  some of the returned dictionaries; \<open>details\<close> keeps the insertion order of its keys.
\<close>

datatype detail = DFloat pyfloat | DBool bool | DInt int

record criterion =
  passes :: bool
  reason :: string
  c_details :: "(string \<times> detail) list"

record verdict =
  passed :: bool
  fail_reasons :: "string list"
  score :: int
  max_score :: int
  technical_score :: "int option"
  details :: "(string \<times> criterion) list"
  summary :: "string option"
  v_symbol :: "string option"
  rs_rating :: "int option"

text \<open>\<open>d[key] = value\<close> on an insertion-ordered dictionary.\<close>

fun dict_set :: "('k \<times> 'v) list \<Rightarrow> 'k \<Rightarrow> 'v \<Rightarrow> ('k \<times> 'v) list" where
  "dict_set [] k v = [(k, v)]"
| "dict_set ((k', v') # d) k v = (if k' = k then (k, v) # d else (k', v') # dict_set d k v)"

text \<open>\<open>sum(c['passes'] for c in cs)\<close>: the number of passing criteria.\<close>

definition count_passes :: "criterion list \<Rightarrow> int" where
  "count_passes cs = int (length (filter passes cs))"

definition check_price_above_mas :: "pyfloat \<Rightarrow> pyfloat \<Rightarrow> pyfloat \<Rightarrow> criterion" where
  "check_price_above_mas p m_150 m_200 =
     (let above_150 = pf_gt p m_150;
          above_200 = pf_gt p m_200;
          ok = (above_150 \<and> above_200);
          why =
            (if \<not> ok then
               (if \<not> above_150 \<and> \<not> above_200
                then ''Price below both 150MA ($'' @ format_fixed 2 m_150 @ '') & 200MA ($'' @
                     format_fixed 2 m_200 @ '')''
                else if \<not> above_150
                then ''Price below 150MA ($'' @ format_fixed 2 m_150 @ '')''
                else ''Price below 200MA ($'' @ format_fixed 2 m_200 @ '')'')
             else [])
      in \<lparr>passes = ok, reason = why,
          c_details = [(''price'', DFloat p), (''ma_150'', DFloat m_150),
                       (''ma_200'', DFloat m_200), (''above_150'', DBool above_150),
                       (''above_200'', DBool above_200)]\<rparr>)"

definition check_ma_150_above_200 :: "pyfloat \<Rightarrow> pyfloat \<Rightarrow> criterion" where
  "check_ma_150_above_200 m_150 m_200 =
     (let ok = pf_gt m_150 m_200
      in \<lparr>passes = ok,
          reason = (if \<not> ok
                    then ''150MA ($'' @ format_fixed 2 m_150 @ '') below 200MA ($'' @
                         format_fixed 2 m_200 @ '')''
                    else []),
          c_details = [(''ma_150'', DFloat m_150), (''ma_200'', DFloat m_200),
                       (''difference'', DFloat (pf_sub m_150 m_200))]\<rparr>)"

definition check_ma_200_trending_up :: "bool \<Rightarrow> criterion" where
  "check_ma_200_trending_up trending =
     (let ok = trending
      in \<lparr>passes = ok,
          reason = (if \<not> ok then ''200MA not trending up'' else []),
          c_details = [(''trending_up'', DBool trending)]\<rparr>)"

definition check_ma_50_above_others :: "pyfloat \<Rightarrow> pyfloat \<Rightarrow> pyfloat \<Rightarrow> criterion" where
  "check_ma_50_above_others m_50 m_150 m_200 =
     (let above_150 = pf_gt m_50 m_150;
          above_200 = pf_gt m_50 m_200;
          ok = (above_150 \<and> above_200);
          why =
            (if \<not> ok then
               (if \<not> above_150 \<and> \<not> above_200
                then ''50MA below both 150MA & 200MA''
                else if \<not> above_150
                then ''50MA ($'' @ format_fixed 2 m_50 @ '') below 150MA ($'' @
                     format_fixed 2 m_150 @ '')''
                else ''50MA ($'' @ format_fixed 2 m_50 @ '') below 200MA ($'' @
                     format_fixed 2 m_200 @ '')'')
             else [])
      in \<lparr>passes = ok, reason = why,
          c_details = [(''ma_50'', DFloat m_50), (''ma_150'', DFloat m_150),
                       (''ma_200'', DFloat m_200), (''above_150'', DBool above_150),
                       (''above_200'', DBool above_200)]\<rparr>)"

definition check_above_52w_low :: "pyfloat \<Rightarrow> criterion" where
  "check_above_52w_low low_pct =
     (let ok = pf_ge low_pct (Fin 30)
      in \<lparr>passes = ok,
          reason = (if \<not> ok
                    then ''Only '' @ format_fixed 1 low_pct @ ''% above 52W low (need '' @
                         ge_sign @ ''30%)''
                    else []),
          c_details = [(''from_low_pct'', DFloat low_pct), (''threshold'', DFloat (Fin 30))]\<rparr>)"

definition check_near_52w_high :: "pyfloat \<Rightarrow> criterion" where
  "check_near_52w_high high_pct =
     (let ok = pf_le (pf_abs high_pct) (Fin 25)
      in \<lparr>passes = ok,
          reason = (if \<not> ok
                    then format_fixed 1 (pf_abs high_pct) @ ''% below 52W high (need '' @
                         le_sign @ ''25%)''
                    else []),
          c_details = [(''from_high_pct'', DFloat high_pct), (''threshold'', DFloat (Fin 25))]\<rparr>)"

definition check_rs_rating_strong :: "int \<Rightarrow> criterion" where
  "check_rs_rating_strong rating =
     (let ok = (rating \<ge> 70)
      in \<lparr>passes = ok,
          reason = (if \<not> ok then ''RS Rating '' @ str_int rating @ '' below 70'' else []),
          c_details = [(''rs_rating'', DInt rating), (''threshold'', DInt 70)]\<rparr>)"

definition generate_summary :: "(string \<times> criterion) list \<Rightarrow> bool \<Rightarrow> string" where
  "generate_summary criteria_results passes_all =
     (if passes_all
      then check_mark @ '' All technical criteria passed - Strong trend template''
      else
        (let failed_count = int (length (filter (\<lambda>c. \<not> passes c) (map snd criteria_results)));
             passed_count = int (length criteria_results) - failed_count
         in warning_sign @ '' '' @ str_int passed_count @ ''/'' @
            str_int (int (length criteria_results)) @ '' criteria passed''))"

definition generate_summary_with_rs :: "criterion list \<Rightarrow> bool \<Rightarrow> string" where
  "generate_summary_with_rs criteria_results passes_all =
     (if passes_all
      then check_mark @ '' All Minervini criteria passed - Perfect trend template''
      else
        (let failed_count = int (length (filter (\<lambda>c. \<not> passes c) criteria_results));
             passed_count = int (length criteria_results) - failed_count
         in warning_sign @ '' '' @ str_int passed_count @ ''/'' @
            str_int (int (length criteria_results)) @ '' criteria passed''))"

text \<open>
  \<open>MinerviniAnalyzer.analyze_stock\<close>. On float-valued fields no step of the \<open>try\<close> block
  raises, so the \<open>except\<close> clause has no branch here.
\<close>

definition analyze_stock :: "stock_data \<Rightarrow> verdict" where
  "analyze_stock sd =
     (let name = dict_get (symbol sd) ''Unknown'';
          p = dict_get (price sd) (Fin 0);
          m_50 = dict_get (ma_50 sd) (Fin 0);
          m_150 = dict_get (ma_150 sd) (Fin 0);
          m_200 = dict_get (ma_200 sd) (Fin 0);
          high_52 = dict_get (week_52_high sd) (Fin 0);
          low_52 = dict_get (week_52_low sd) (Fin 0);
          trending = dict_get (ma_200_trending_up sd) False;
          low_pct = dict_get (from_low_pct sd) (Fin 0);
          high_pct = dict_get (from_high_pct sd) (Fin 0)
      in if \<not> list_all truthy [p, m_50, m_150, m_200, high_52, low_52]
         then \<lparr>passed = False, fail_reasons = [''Insufficient data for analysis''],
               score = 0, max_score = 7, technical_score = None, details = [],
               summary = None, v_symbol = None, rs_rating = None\<rparr>
         else
           (let criteria_1 = check_price_above_mas p m_150 m_200;
                reasons_1 = (if \<not> passes criteria_1 then [reason criteria_1] else []);
                criteria_2 = check_ma_150_above_200 m_150 m_200;
                reasons_2 = reasons_1 @ (if \<not> passes criteria_2 then [reason criteria_2] else []);
                criteria_3 = check_ma_200_trending_up trending;
                reasons_3 = reasons_2 @ (if \<not> passes criteria_3 then [reason criteria_3] else []);
                criteria_4 = check_ma_50_above_others m_50 m_150 m_200;
                reasons_4 = reasons_3 @ (if \<not> passes criteria_4 then [reason criteria_4] else []);
                criteria_5 = check_above_52w_low low_pct;
                reasons_5 = reasons_4 @ (if \<not> passes criteria_5 then [reason criteria_5] else []);
                criteria_6 = check_near_52w_high high_pct;
                reasons_6 = reasons_5 @ (if \<not> passes criteria_6 then [reason criteria_6] else []);
                criteria_results =
                  [(''price_above_mas'', criteria_1), (''ma_150_above_200'', criteria_2),
                   (''ma_200_trending_up'', criteria_3), (''ma_50_above_others'', criteria_4),
                   (''above_52w_low'', criteria_5), (''near_52w_high'', criteria_6)];
                technical_criteria =
                  [criteria_1, criteria_2, criteria_3, criteria_4, criteria_5, criteria_6];
                passes_technical = list_all passes technical_criteria;
                tech_score = count_passes technical_criteria
            in \<lparr>passed = passes_technical, fail_reasons = reasons_6,
                 score = tech_score, max_score = 6, technical_score = Some tech_score,
                 details = criteria_results,
                 summary = Some (generate_summary criteria_results passes_technical),
                 v_symbol = Some name, rs_rating = None\<rparr>))"

text \<open>\<open>MinerviniAnalyzer.analyze_with_rs_rating\<close>.\<close>

definition analyze_with_rs_rating :: "stock_data \<Rightarrow> int \<Rightarrow> verdict" where
  "analyze_with_rs_rating sd rating =
     (let base_analysis = analyze_stock sd;
          rs_criterion = check_rs_rating_strong rating;
          new_details = dict_set (details base_analysis) ''rs_rating_strong'' rs_criterion;
          all_criteria = map snd new_details;
          passes_all_including_rs = list_all passes all_criteria;
          total_score = count_passes all_criteria;
          new_reasons =
            fail_reasons base_analysis @
            (if \<not> passes rs_criterion then [reason rs_criterion] else [])
      in base_analysis
           \<lparr>details := new_details,
            fail_reasons := new_reasons,
            passed := passes_all_including_rs,
            score := total_score,
            max_score := 7,
            rs_rating := Some rating,
            summary := Some (generate_summary_with_rs all_criteria passes_all_including_rs)\<rparr>)"

section \<open>Sample inputs\<close>

text \<open>
  Concrete frames on which the theorems below are instantiated: a bar whose four prices
  coincide, a flat series and a series that rises by one unit a day, both on the
  consecutive days \<open>0, 1, 2, \<dots>\<close>.
\<close>

definition sample_bar :: "int \<Rightarrow> real \<Rightarrow> real \<Rightarrow> bar" where
  "sample_bar d c v =
     \<lparr>Date = d, Open = Fin c, High = Fin c, Low = Fin c, Close = Fin c, Volume = Fin v\<rparr>"

definition flat_frame :: "nat \<Rightarrow> real \<Rightarrow> frame" where
  "flat_frame n c = map (\<lambda>i. sample_bar (int i) c 1000) [0..<n]"

definition rising_frame :: "nat \<Rightarrow> frame" where
  "rising_frame n = map (\<lambda>i. sample_bar (int i) (100 + real i) 1000) [0..<n]"

definition with_history :: "frame \<Rightarrow> stock_data" where
  "with_history hist = empty_dict\<lparr>historical_data := Some hist\<rparr>"

section \<open>Auxiliary notions\<close>

text \<open>
  On a finite relative performance the band rating is the floor of a linear expression,
  since every argument of \<open>int\<close> is non-negative.
\<close>

definition rating_real :: "real \<Rightarrow> int" where
  "rating_real x =
     (if x \<ge> 50 then 90 + \<lfloor>min (x - 50) 50 / 50 * 9\<rfloor>
      else if x \<ge> 20 then 80 + \<lfloor>(x - 20) / 30 * 9\<rfloor>
      else if x \<ge> 5 then 70 + \<lfloor>(x - 5) / 15 * 9\<rfloor>
      else if x \<ge> - 5 then 50 + \<lfloor>(x + 5) / 10 * 19\<rfloor>
      else 49 - \<lfloor>min \<bar>x + 5\<bar> 45 / 45 * 48\<rfloor>)"

text \<open>The band a performance falls in, numbered from the weakest.\<close>

definition band_no :: "real \<Rightarrow> nat" where
  "band_no x = (if x \<ge> 50 then 4 else if x \<ge> 20 then 3 else if x \<ge> 5 then 2
                else if x \<ge> - 5 then 1 else 0)"


text \<open>
  The seven rules as the specification's table words them, in rule order, on the fields
  of a stock-data dictionary and an RS rating; and the reasons that the seven checks of
  the analyzer give on the same inputs.
\<close>

definition spec_rules :: "stock_data \<Rightarrow> int \<Rightarrow> bool list" where
  "spec_rules sd rating =
     (let p = dict_get (price sd) (Fin 0);
          m_50 = dict_get (ma_50 sd) (Fin 0);
          m_150 = dict_get (ma_150 sd) (Fin 0);
          m_200 = dict_get (ma_200 sd) (Fin 0)
      in [pf_gt p m_150 \<and> pf_gt p m_200,
          pf_gt m_150 m_200,
          dict_get (ma_200_trending_up sd) False,
          pf_gt m_50 m_150 \<and> pf_gt m_50 m_200,
          pf_ge (dict_get (from_low_pct sd) (Fin 0)) (Fin 30),
          pf_le (pf_abs (dict_get (from_high_pct sd) (Fin 0))) (Fin 25),
          rating \<ge> 70])"

definition rule_reasons :: "stock_data \<Rightarrow> int \<Rightarrow> string list" where
  "rule_reasons sd rating =
     (let p = dict_get (price sd) (Fin 0);
          m_50 = dict_get (ma_50 sd) (Fin 0);
          m_150 = dict_get (ma_150 sd) (Fin 0);
          m_200 = dict_get (ma_200 sd) (Fin 0)
      in [reason (check_price_above_mas p m_150 m_200),
          reason (check_ma_150_above_200 m_150 m_200),
          reason (check_ma_200_trending_up (dict_get (ma_200_trending_up sd) False)),
          reason (check_ma_50_above_others m_50 m_150 m_200),
          reason (check_above_52w_low (dict_get (from_low_pct sd) (Fin 0))),
          reason (check_near_52w_high (dict_get (from_high_pct sd) (Fin 0))),
          reason (check_rs_rating_strong rating)])"

text \<open>
  The six values that \<open>analyze_stock\<close> validates are all present and non-zero.
\<close>

definition sufficient :: "stock_data \<Rightarrow> bool" where
  "sufficient sd =
     (dict_get (price sd) (Fin 0) \<noteq> Fin 0 \<and> dict_get (ma_50 sd) (Fin 0) \<noteq> Fin 0 \<and>
      dict_get (ma_150 sd) (Fin 0) \<noteq> Fin 0 \<and> dict_get (ma_200 sd) (Fin 0) \<noteq> Fin 0 \<and>
      dict_get (week_52_high sd) (Fin 0) \<noteq> Fin 0 \<and>
      dict_get (week_52_low sd) (Fin 0) \<noteq> Fin 0)"

text \<open>
  A snapshot in a confirmed uptrend whose 200-day average is not rising, and the same
  snapshot with a price that rounds to zero.
\<close>

definition sample_snapshot :: stock_data where
  "sample_snapshot =
     empty_dict\<lparr>symbol := Some ''ACME'', price := Some (Fin 120), ma_50 := Some (Fin 110),
       ma_150 := Some (Fin 100), ma_200 := Some (Fin 90), week_52_high := Some (Fin 125),
       week_52_low := Some (Fin 80), from_high_pct := Some (Fin (- 4)),
       from_low_pct := Some (Fin 50), ma_200_trending_up := Some False\<rparr>"

definition zero_price_data :: stock_data where
  "zero_price_data = sample_snapshot\<lparr>price := Some (Fin 0)\<rparr>"


text \<open>
  The quantities that \<open>_calculate_indicators\<close> derives from a frame of at least 50 bars,
  and the dictionary it returns when neither percentage offset divides by zero.
\<close>

definition latest_close :: "frame \<Rightarrow> pyfloat" where
  "latest_close hist = last (map Close hist)"

definition high_52w :: "frame \<Rightarrow> pyfloat" where
  "high_52w hist = series_max (tail (min 252 (length hist)) (map High hist))"

definition low_52w :: "frame \<Rightarrow> pyfloat" where
  "low_52w hist = series_min (tail (min 252 (length hist)) (map Low hist))"

definition latest_ma :: "nat \<Rightarrow> nat \<Rightarrow> frame \<Rightarrow> pyfloat" where
  "latest_ma w min_periods hist = last (rolling_mean w min_periods (map Close hist))"

definition ma_or_price :: "nat \<Rightarrow> nat \<Rightarrow> frame \<Rightarrow> pyfloat" where
  "ma_or_price w min_periods hist =
     (if \<not> isna (latest_ma w min_periods hist) then latest_ma w min_periods hist
      else latest_close hist)"

definition pct_vs_ma :: "pyfloat \<Rightarrow> pyfloat \<Rightarrow> pyfloat" where
  "pct_vs_ma current_price ma =
     (if pf_gt ma (Fin 0)
      then py_round (pf_mul (np_div (pf_sub current_price ma) ma) (Fin 100)) 1
      else Fin 0)"

definition snapshot_of :: "frame \<Rightarrow> string \<Rightarrow> stock_data" where
  "snapshot_of hist symb =
     \<lparr>symbol = Some symb, error = None,
      price = Some (py_round (latest_close hist) 2),
      ma_50 = Some (py_round (ma_or_price 50 25 hist) 2),
      ma_150 = Some (py_round (ma_or_price 150 75 hist) 2),
      ma_200 = Some (py_round (ma_or_price 200 100 hist) 2),
      week_52_high = Some (py_round (high_52w hist) 2),
      week_52_low = Some (py_round (low_52w hist) 2),
      from_high_pct =
        Some (py_round (pf_mul (np_div (pf_sub (latest_close hist) (high_52w hist))
                (high_52w hist)) (Fin 100)) 1),
      from_low_pct =
        Some (py_round (pf_mul (np_div (pf_sub (latest_close hist) (low_52w hist))
                (low_52w hist)) (Fin 100)) 1),
      ma_50_trending_up = Some (is_trending_up (rolling_mean 50 25 (map Close hist)) 20),
      ma_150_trending_up = Some (is_trending_up (rolling_mean 150 75 (map Close hist)) 20),
      ma_200_trending_up = Some (is_trending_up (rolling_mean 200 100 (map Close hist)) 20),
      price_vs_ma_50 = Some (pct_vs_ma (latest_close hist) (ma_or_price 50 25 hist)),
      price_vs_ma_150 = Some (pct_vs_ma (latest_close hist) (ma_or_price 150 75 hist)),
      price_vs_ma_200 = Some (pct_vs_ma (latest_close hist) (ma_or_price 200 100 hist)),
      volume = Some (fst (snd (volume_analysis hist))),
      avg_volume = Some (fst (volume_analysis hist)),
      volume_ratio = Some (py_round (snd (snd (volume_analysis hist))) 2),
      historical_data = Some hist\<rparr>"

text \<open>The error dictionary: the symbol and the message, and no other key.\<close>

definition error_dict :: "string \<Rightarrow> string \<Rightarrow> stock_data" where
  "error_dict symb msg = empty_dict\<lparr>symbol := Some symb, error := Some msg\<rparr>"

text \<open>A snapshot with every key present and no error key.\<close>

definition fully_populated :: "stock_data \<Rightarrow> bool" where
  "fully_populated d =
     (error d = None \<and> symbol d \<noteq> None \<and> price d \<noteq> None \<and> ma_50 d \<noteq> None \<and>
      ma_150 d \<noteq> None \<and> ma_200 d \<noteq> None \<and> week_52_high d \<noteq> None \<and>
      week_52_low d \<noteq> None \<and> from_high_pct d \<noteq> None \<and> from_low_pct d \<noteq> None \<and>
      ma_50_trending_up d \<noteq> None \<and> ma_150_trending_up d \<noteq> None \<and>
      ma_200_trending_up d \<noteq> None \<and> price_vs_ma_50 d \<noteq> None \<and>
      price_vs_ma_150 d \<noteq> None \<and> price_vs_ma_200 d \<noteq> None \<and> volume d \<noteq> None \<and>
      avg_volume d \<noteq> None \<and> volume_ratio d \<noteq> None \<and> historical_data d \<noteq> None)"

text \<open>
  No bar has a zero high or a zero low, as in every series of positive prices.
\<close>

definition nonzero_high_low :: "frame \<Rightarrow> bool" where
  "nonzero_high_low hist = list_all (\<lambda>b. High b \<noteq> Fin 0 \<and> Low b \<noteq> Fin 0) hist"

text \<open>The arithmetic mean of a list of reals.\<close>

definition list_mean :: "real list \<Rightarrow> real" where
  "list_mean xs = sum_list xs / real (length xs)"

text \<open>
  Fifty bars at 100 whose first 26 closes are infinite: only 24 finite closes remain,
  fewer than the 25 that the 50-day average needs.
\<close>

definition infinite_close_frame :: frame where
  "infinite_close_frame =
     map (\<lambda>i. (sample_bar (int i) 100 1000)\<lparr>Close := PInf\<rparr>) [0..<26] @
     map (\<lambda>i. sample_bar (int i) 100 1000) [26..<50]"

text \<open>A flat series that never trades.\<close>

definition zero_volume_frame :: "nat \<Rightarrow> frame" where
  "zero_volume_frame n = map (\<lambda>i. sample_bar (int i) 100 0) [0..<n]"

section \<open>The rating scale\<close>

lemma py_min_Fin: "py_min (Fin a) (Fin b) = Fin (min a b)"
  by (simp add: py_min_def min_def)

lemma band_rating_Fin: "band_rating (Fin x) = Inr (rating_real x)"
  unfolding band_rating_def rating_real_def pf_ge_def pf_sub_def Let_def try_bind_def
  by (simp add: py_min_Fin)

lemma rating_real_top: "50 \<le> x \<Longrightarrow> 90 \<le> rating_real x \<and> rating_real x \<le> 99"
  unfolding rating_real_def by (auto simp: le_floor_iff floor_le_iff min_def)

lemma rating_real_strong:
  "20 \<le> x \<Longrightarrow> x < 50 \<Longrightarrow> 80 \<le> rating_real x \<and> rating_real x \<le> 88"
  unfolding rating_real_def by (auto simp: le_floor_iff floor_le_iff)

lemma rating_real_good:
  "5 \<le> x \<Longrightarrow> x < 20 \<Longrightarrow> 70 \<le> rating_real x \<and> rating_real x \<le> 78"
  unfolding rating_real_def by (auto simp: le_floor_iff floor_le_iff)

lemma rating_real_average:
  "- 5 \<le> x \<Longrightarrow> x < 5 \<Longrightarrow> 50 \<le> rating_real x \<and> rating_real x \<le> 68"
  unfolding rating_real_def by (auto simp: le_floor_iff floor_le_iff)

lemma rating_real_weak: "x < - 5 \<Longrightarrow> 1 \<le> rating_real x \<and> rating_real x \<le> 49"
  unfolding rating_real_def by (auto simp: le_floor_iff floor_le_iff min_def)

lemma band_no_mono: "x \<le> y \<Longrightarrow> band_no x \<le> band_no y"
  by (simp add: band_no_def)

lemma rating_real_lower:
  "rating_real x \<ge> (if band_no x = 0 then 1 else if band_no x = 1 then 50
                      else if band_no x = 2 then 70 else if band_no x = 3 then 80 else 90)"
  using rating_real_top[of x] rating_real_strong[of x] rating_real_good[of x]
    rating_real_average[of x] rating_real_weak[of x]
  by (auto simp: band_no_def)

lemma rating_real_upper:
  "rating_real x \<le> (if band_no x = 0 then 49 else if band_no x = 1 then 68
                      else if band_no x = 2 then 78 else if band_no x = 3 then 88 else 99)"
  using rating_real_top[of x] rating_real_strong[of x] rating_real_good[of x]
    rating_real_average[of x] rating_real_weak[of x]
  by (auto simp: band_no_def)

lemma rating_real_mono_same_band:
  assumes "x \<le> y" "band_no x = band_no y"
  shows "rating_real x \<le> rating_real y"
proof -
  consider "50 \<le> x" | "20 \<le> x" "y < 50" | "5 \<le> x" "y < 20" | "- 5 \<le> x" "y < 5" | "y < - 5"
    using assms by (auto simp: band_no_def split: if_splits)
  then show ?thesis
  proof cases
    case 1
    then show ?thesis using assms(1) unfolding rating_real_def by (auto intro!: floor_mono)
  next
    case 2
    then show ?thesis using assms(1) unfolding rating_real_def by (auto intro!: floor_mono)
  next
    case 3
    then show ?thesis using assms(1) unfolding rating_real_def by (auto intro!: floor_mono)
  next
    case 4
    then show ?thesis using assms(1) unfolding rating_real_def by (auto intro!: floor_mono)
  next
    case 5
    then show ?thesis using assms(1) unfolding rating_real_def by (auto intro!: floor_mono)
  qed
qed

lemma rating_real_mono: "x \<le> y \<Longrightarrow> rating_real x \<le> rating_real y"
proof -
  assume xy: "x \<le> y"
  show ?thesis
  proof (cases "band_no x = band_no y")
    case True
    with xy show ?thesis by (rule rating_real_mono_same_band)
  next
    case False
    with band_no_mono[OF xy] have lt: "band_no x < band_no y" by simp
    have "band_no y \<le> 4" by (simp add: band_no_def)
    with lt show ?thesis
      using rating_real_upper[of x] rating_real_lower[of y]
      by (auto split: if_splits)
  qed
qed

lemma convert_to_rs_scale_Fin: "convert_to_rs_scale (Fin x) = max 1 (min 99 (rating_real x))"
  by (simp add: convert_to_rs_scale_def band_rating_Fin)

lemma convert_to_rs_scale_range: "1 \<le> convert_to_rs_scale x \<and> convert_to_rs_scale x \<le> 99"
  by (simp add: convert_to_rs_scale_def split: sum.split)

text \<open>
  C10. The conversion of a relative performance to a rating is monotone: for real numbers
  \<open>x \<le> y\<close> the rating of \<open>x\<close> is at most the rating of \<open>y\<close>, within a band, across
  the band boundaries and beyond the caps at +100 and -50.
\<close>

theorem convert_to_rs_scale_mono:
  "x \<le> y \<Longrightarrow> convert_to_rs_scale (Fin x) \<le> convert_to_rs_scale (Fin y)"
proof -
  assume "x \<le> y"
  then have "rating_real x \<le> rating_real y" by (rule rating_real_mono)
  then show ?thesis by (simp add: convert_to_rs_scale_Fin)
qed

theorem convert_to_rs_scale_mono_witness:
  "(- 60 :: real) \<le> 120 \<and> convert_to_rs_scale (Fin (- 60)) \<le> convert_to_rs_scale (Fin 120)"
proof -
  have h: "(- 60 :: real) \<le> 120" by simp
  show ?thesis using h convert_to_rs_scale_mono [OF h] by simp
qed

section \<open>The RS rating\<close>

text \<open>
  C4. Whatever the stock data and the benchmark (absent, empty, short, unordered, with
  repeated dates, with \<open>NaN\<close> or infinite prices), the RS rating is an integer between 1
  and 99, and so is every value of the scale conversion. The functions are total: each
  exception of the source is a value that the enclosing \<open>except\<close> clause replaces.
\<close>

theorem calculate_rs_rating_range:
  "1 \<le> calculate_rs_rating sd sp500 \<and> calculate_rs_rating sd sp500 \<le> 99 \<and>
   1 \<le> convert_to_rs_scale x \<and> convert_to_rs_scale x \<le> 99"
  using convert_to_rs_scale_range
  by (simp add: calculate_rs_rating_def Let_def split: option.split prod.split)

lemma index_intersection_disjoint:
  "set xs \<inter> set ys = {} \<Longrightarrow> index_intersection xs ys = []"
  by (auto simp: index_intersection_def filter_empty_conv)

lemma align_data_disjoint:
  assumes "set (map Date stock) \<inter> set (map Date bench) = {}"
  shows "align_data stock bench = ([], [])"
proof -
  have "index_intersection (map fst (column Close stock)) (map fst (column Close bench)) = []"
    using assms by (intro index_intersection_disjoint) (simp add: column_def comp_def)
  then show ?thesis
    by (simp add: align_data_def align_data_body_def Let_def)
qed

text \<open>
  C1, as the code has it. When the stock series and the benchmark series are both
  non-empty and share no trading date, the alignment is empty, its length 0 is below the
  63 days of a quarter, and the rating returned is the neutral 50.
\<close>

theorem calculate_rs_rating_no_common_dates:
  assumes "historical_data sd = Some stock" and "stock \<noteq> []" and "bench \<noteq> []"
    and "set (map Date stock) \<inter> set (map Date bench) = {}"
  shows "calculate_rs_rating sd (Some bench) = 50"
  using assms(1,2) align_data_disjoint [OF assms(4)]
  by (simp add: calculate_rs_rating_def)

theorem calculate_rs_rating_no_common_dates_witness:
  "calculate_rs_rating (with_history [sample_bar 1 100 1000]) (Some [sample_bar 2 100 1000]) = 50"
proof -
  have h1: "historical_data (with_history [sample_bar 1 100 1000]) = Some [sample_bar 1 100 1000]"
    by (simp add: with_history_def)
  have h2: "[sample_bar 1 100 1000] \<noteq> []" by simp
  have h3: "[sample_bar 2 100 1000] \<noteq> []" by simp
  have h4: "set (map Date [sample_bar 1 100 1000]) \<inter> set (map Date [sample_bar 2 100 1000]) = {}"
    by (simp add: sample_bar_def)
  show ?thesis by (rule calculate_rs_rating_no_common_dates [OF h1 h2 h3 h4])
qed

text \<open>
  The claim as the specification words it (rating 1 on zero common dates) fails on a
  one-bar stock series of day 1 against a one-bar benchmark of day 2.
\<close>

theorem calculate_rs_rating_no_common_dates_counterexample:
  "[sample_bar 1 100 1000] \<noteq> [] \<and> [sample_bar 2 100 1000] \<noteq> [] \<and>
   set (map Date [sample_bar 1 100 1000]) \<inter> set (map Date [sample_bar 2 100 1000]) = {} \<and>
   calculate_rs_rating (with_history [sample_bar 1 100 1000]) (Some [sample_bar 2 100 1000]) \<noteq> 1"
  by (simp add: sample_bar_def with_history_def calculate_rs_rating_def align_data_def
      align_data_body_def column_def index_intersection_def Let_def)

section \<open>The criteria evaluator\<close>

lemma passes_simps:
  "passes (check_price_above_mas p a b) = (pf_gt p a \<and> pf_gt p b)"
  "passes (check_ma_150_above_200 a b) = pf_gt a b"
  "passes (check_ma_200_trending_up t) = t"
  "passes (check_ma_50_above_others c a b) = (pf_gt c a \<and> pf_gt c b)"
  "passes (check_above_52w_low x) = pf_ge x (Fin 30)"
  "passes (check_near_52w_high y) = pf_le (pf_abs y) (Fin 25)"
  "passes (check_rs_rating_strong r) = (r \<ge> 70)"
  by (simp_all add: check_price_above_mas_def check_ma_150_above_200_def
      check_ma_200_trending_up_def check_ma_50_above_others_def check_above_52w_low_def
      check_near_52w_high_def check_rs_rating_strong_def Let_def)

text \<open>
  C7. Rule 5 passes exactly when \<open>from_low_pct \<ge> 30\<close>: 30.0 passes and 29.9 fails.
  Rule 6 passes exactly when \<open>abs(from_high_pct) \<le> 25\<close>: 25.0 passes, on either side of
  the high, and 25.1 fails. A \<open>NaN\<close> offset fails both rules.
\<close>

theorem threshold_rules:
  "passes (check_above_52w_low (Fin r)) = (r \<ge> 30) \<and>
   passes (check_near_52w_high (Fin r)) = (\<bar>r\<bar> \<le> 25) \<and>
   passes (check_above_52w_low (Fin 30)) \<and>
   \<not> passes (check_above_52w_low (Fin 29.9)) \<and>
   passes (check_near_52w_high (Fin 25)) \<and>
   passes (check_near_52w_high (Fin (- 25))) \<and>
   \<not> passes (check_near_52w_high (Fin 25.1)) \<and>
   \<not> passes (check_near_52w_high (Fin (- 25.1))) \<and>
   \<not> passes (check_above_52w_low NaN) \<and>
   \<not> passes (check_near_52w_high NaN)"
  by (simp add: passes_simps pf_ge_def)

lemma analyze_stock_sufficient_details:
  assumes "sufficient sd"
  shows "details (analyze_stock sd) =
           [(''price_above_mas'',
             check_price_above_mas (dict_get (price sd) (Fin 0)) (dict_get (ma_150 sd) (Fin 0))
               (dict_get (ma_200 sd) (Fin 0))),
            (''ma_150_above_200'',
             check_ma_150_above_200 (dict_get (ma_150 sd) (Fin 0)) (dict_get (ma_200 sd) (Fin 0))),
            (''ma_200_trending_up'',
             check_ma_200_trending_up (dict_get (ma_200_trending_up sd) False)),
            (''ma_50_above_others'',
             check_ma_50_above_others (dict_get (ma_50 sd) (Fin 0)) (dict_get (ma_150 sd) (Fin 0))
               (dict_get (ma_200 sd) (Fin 0))),
            (''above_52w_low'', check_above_52w_low (dict_get (from_low_pct sd) (Fin 0))),
            (''near_52w_high'', check_near_52w_high (dict_get (from_high_pct sd) (Fin 0)))]"
  using assms by (simp add: analyze_stock_def sufficient_def truthy_def Let_def)

lemma analyze_stock_sufficient_reasons:
  assumes "sufficient sd"
  shows "fail_reasons (analyze_stock sd) =
           map snd (filter (\<lambda>(ok, why). \<not> ok)
             (zip (butlast (spec_rules sd rating)) (butlast (rule_reasons sd rating))))"
  using assms
  by (simp add: analyze_stock_def sufficient_def truthy_def Let_def spec_rules_def
      rule_reasons_def passes_simps)

text \<open>
  C3. On a snapshot whose price, three moving averages and two 52-week extremes are all
  non-zero, and for every integer RS rating, the combined evaluation returns \<open>passed\<close> as
  the conjunction of the seven rules, \<open>score\<close> as the number of passing rules (between 0
  and 7), \<open>max_score\<close> 7, and as \<open>fail_reasons\<close> the reasons of the failing rules in rule
  order 1 to 7.
\<close>

theorem combined_evaluation:
  assumes "sufficient sd"
  shows "passed (analyze_with_rs_rating sd rating) = list_all id (spec_rules sd rating) \<and>
         score (analyze_with_rs_rating sd rating) =
           int (length (filter id (spec_rules sd rating))) \<and>
         0 \<le> score (analyze_with_rs_rating sd rating) \<and>
         score (analyze_with_rs_rating sd rating) \<le> 7 \<and>
         max_score (analyze_with_rs_rating sd rating) = 7 \<and>
         fail_reasons (analyze_with_rs_rating sd rating) =
           map snd (filter (\<lambda>(ok, why). \<not> ok)
             (zip (spec_rules sd rating) (rule_reasons sd rating)))"
proof -
  let ?v = "analyze_with_rs_rating sd rating"
  note d = analyze_stock_sufficient_details [OF assms]
  have p: "passed ?v = list_all id (spec_rules sd rating)"
    by (simp add: analyze_with_rs_rating_def Let_def d spec_rules_def passes_simps)
  have s: "score ?v = int (length (filter id (spec_rules sd rating)))"
    by (simp add: analyze_with_rs_rating_def Let_def d spec_rules_def passes_simps
        count_passes_def)
  have "length (filter id (spec_rules sd rating)) \<le> length (spec_rules sd rating)"
    by (rule length_filter_le)
  then have b: "0 \<le> score ?v \<and> score ?v \<le> 7"
    unfolding s by (simp add: spec_rules_def Let_def)
  have m: "max_score ?v = 7"
    by (simp add: analyze_with_rs_rating_def Let_def)
  have f: "fail_reasons ?v =
             map snd (filter (\<lambda>(ok, why). \<not> ok)
               (zip (spec_rules sd rating) (rule_reasons sd rating)))"
    by (simp add: analyze_with_rs_rating_def Let_def
        analyze_stock_sufficient_reasons [OF assms, of rating] spec_rules_def rule_reasons_def
        passes_simps)
  from p s b m f show ?thesis by simp
qed

lemma str_int_65: "str_int 65 = ''65''"
  by (simp add: str_int_def str_nat.simps digit_char_def)

theorem combined_evaluation_witness:
  "sufficient sample_snapshot \<and>
   passed (analyze_with_rs_rating sample_snapshot 65) = False \<and>
   score (analyze_with_rs_rating sample_snapshot 65) = 5 \<and>
   max_score (analyze_with_rs_rating sample_snapshot 65) = 7 \<and>
   fail_reasons (analyze_with_rs_rating sample_snapshot 65) =
     [''200MA not trending up'', ''RS Rating 65 below 70'']"
proof -
  have h: "sufficient sample_snapshot"
    by (simp add: sufficient_def sample_snapshot_def empty_dict_def dict_get_def)
  have r: "spec_rules sample_snapshot 65 = [True, True, False, True, True, True, False]"
    by (simp add: spec_rules_def sample_snapshot_def empty_dict_def dict_get_def pf_gt_def
        pf_ge_def)
  have w: "rule_reasons sample_snapshot 65 ! 2 = ''200MA not trending up'' \<and>
           rule_reasons sample_snapshot 65 ! 6 = ''RS Rating 65 below 70''"
    by (simp add: rule_reasons_def sample_snapshot_def empty_dict_def dict_get_def
        check_ma_200_trending_up_def check_rs_rating_strong_def str_int_65 Let_def)
  have l: "length (rule_reasons sample_snapshot 65) = 7"
    by (simp add: rule_reasons_def Let_def)
  show ?thesis
    using h combined_evaluation [OF h, of 65] r w l
    by (auto simp: zip_Cons1 split: list.splits)
qed

text \<open>
  Without the six values the verdict of the combined evaluation is decided by the RS
  rating alone, although the insufficient-data reason is reported.
\<close>

lemma insufficient_data_verdict:
  assumes "\<not> sufficient sd"
  shows "passed (analyze_with_rs_rating sd rating) = (rating \<ge> 70) \<and>
         ''Insufficient data for analysis'' \<in> set (fail_reasons (analyze_with_rs_rating sd rating))"
  using assms
  by (auto simp add: analyze_with_rs_rating_def analyze_stock_def sufficient_def truthy_def
      Let_def check_rs_rating_strong_def)

text \<open>
  C2. The claim asks for a failed verdict whenever one of the six values is missing or
  zero. On a snapshot whose price is zero and an RS rating of 85 the combined evaluation
  returns \<open>passed = True\<close> with score 1, while still listing the insufficient-data
  reason: \<open>analyze_with_rs_rating\<close> recomputes \<open>passed\<close> from the details, which hold the
  RS criterion only.
\<close>

theorem insufficient_data_passes_on_strong_rs:
  "\<not> sufficient zero_price_data \<and>
   passed (analyze_stock zero_price_data) = False \<and>
   passed (analyze_with_rs_rating zero_price_data 85) = True \<and>
   score (analyze_with_rs_rating zero_price_data 85) = 1 \<and>
   fail_reasons (analyze_with_rs_rating zero_price_data 85) =
     [''Insufficient data for analysis'']"
  by (simp add: analyze_with_rs_rating_def analyze_stock_def zero_price_data_def
      sample_snapshot_def empty_dict_def dict_get_def truthy_def sufficient_def Let_def
      check_rs_rating_strong_def count_passes_def)

section \<open>Flat series\<close>

lemma index_intersection_subset:
  assumes "distinct xs" "set xs \<subseteq> set ys"
  shows "index_intersection xs ys = xs"
proof -
  have "filter (\<lambda>d. d \<in> set ys) xs = xs" using assms(2) by (auto simp: filter_id_conv)
  then show ?thesis using assms(1) by (simp add: index_intersection_def)
qed

lemma dropna_no_nan: "(\<forall>p\<in>set s. \<not> isna (snd p)) \<Longrightarrow> dropna s = s"
  by (simp add: dropna_def filter_id_conv)

lemma reindex_flat:
  assumes "distinct (map fst s)" "set idx \<subseteq> set (map fst s)" "\<forall>p\<in>set s. snd p = v"
  shows "\<exists>s'. reindex s idx = Inr s' \<and> map fst s' = idx \<and> (\<forall>p\<in>set s'. snd p = v)"
proof (cases "map fst s = idx")
  case True
  then show ?thesis using assms(3) by (simp add: reindex_def)
next
  case False
  have look: "map_of s k = Some v" if "k \<in> set idx" for k
  proof -
    from that assms(2) obtain p where "p \<in> set s" "fst p = k" by auto
    then have "(k, snd p) \<in> set s" by auto
    with assms(1) have "map_of s k = Some (snd p)" by simp
    with assms(3) \<open>p \<in> set s\<close> show ?thesis by simp
  qed
  let ?s' = "map (\<lambda>k. (k, case map_of s k of None \<Rightarrow> NaN | Some x \<Rightarrow> x)) idx"
  have "reindex s idx = Inr ?s'" using False assms(1) by (simp add: reindex_def)
  moreover have "map fst ?s' = idx" by (simp add: comp_def)
  moreover have "\<forall>p\<in>set ?s'. snd p = v" using look by auto
  ultimately show ?thesis by blast
qed

lemma reindex_same: "map fst s = idx \<Longrightarrow> reindex s idx = Inr s"
  by (simp add: reindex_def)

lemma align_data_flat:
  assumes ne: "stock \<noteq> []"
    and ds: "distinct (map Date stock)" and db: "distinct (map Date bench)"
    and same: "set (map Date stock) = set (map Date bench)"
    and cs: "list_all (\<lambda>b. Close b = Fin c) stock"
    and cb: "list_all (\<lambda>b. Close b = Fin d) bench"
  shows "\<exists>a b. align_data stock bench = (a, b) \<and> length a = length stock \<and>
           length b = length stock \<and> (\<forall>p\<in>set a. snd p = Fin c) \<and> (\<forall>p\<in>set b. snd p = Fin d)"
proof -
  let ?sc = "column Close stock" and ?bc = "column Close bench"
  let ?dates = "map Date stock"
  have fs: "map fst ?sc = ?dates" and fb: "map fst ?bc = map Date bench"
    by (simp_all add: column_def comp_def)
  have vs: "\<forall>p\<in>set ?sc. snd p = Fin c" using cs by (auto simp: column_def list_all_iff)
  have vb: "\<forall>p\<in>set ?bc. snd p = Fin d" using cb by (auto simp: column_def list_all_iff)
  have common: "index_intersection (map fst ?sc) (map fst ?bc) = ?dates"
    unfolding fs fb using ds same by (intro index_intersection_subset) auto
  have r1: "reindex ?sc ?dates = Inr ?sc" using fs by (rule reindex_same)
  have d1: "dropna ?sc = ?sc" using vs by (intro dropna_no_nan) auto
  from reindex_flat[of ?bc ?dates "Fin d"] db same vb fb
  obtain s2 where r2: "reindex ?bc ?dates = Inr s2" and f2: "map fst s2 = ?dates"
    and v2: "\<forall>p\<in>set s2. snd p = Fin d" by auto
  have d2: "dropna s2 = s2" using v2 by (intro dropna_no_nan) auto
  have final: "index_intersection (map fst ?sc) (map fst s2) = ?dates"
    unfolding fs f2 using ds by (intro index_intersection_subset) auto
  have r3: "reindex s2 ?dates = Inr s2" using f2 by (rule reindex_same)
  have len: "length ?dates \<noteq> 0" using ne by simp
  have "align_data_body stock bench = Inr (sort_index ?sc, sort_index s2)"
    unfolding align_data_body_def Let_def common
    using len by (simp add: try_bind_def r1 d1 r2 d2 final r3)
  then have "align_data stock bench = (sort_index ?sc, sort_index s2)"
    by (simp add: align_data_def)
  moreover have "length (sort_index ?sc) = length stock" by (simp add: sort_index_def column_def)
  moreover have "length (sort_index s2) = length stock"
    using arg_cong[OF f2, of length] by (simp add: sort_index_def)
  moreover have "\<forall>p\<in>set (sort_index ?sc). snd p = Fin c" using vs by (simp add: sort_index_def)
  moreover have "\<forall>p\<in>set (sort_index s2). snd p = Fin d" using v2 by (simp add: sort_index_def)
  ultimately show ?thesis by blast
qed

lemma iloc_neg_const:
  assumes "\<forall>x\<in>set xs. x = v" "1 \<le> k" "k \<le> length xs"
  shows "iloc_neg xs k = Inr v"
proof -
  have "length xs - k < length xs" using assms(2,3) by simp
  then have "xs ! (length xs - k) \<in> set xs" by (rule nth_mem)
  then show ?thesis using assms by (simp add: iloc_neg_def)
qed

lemma period_performance_flat:
  assumes "\<forall>p\<in>set a. snd p = Fin c" "\<forall>p\<in>set b. snd p = Fin d" "c \<noteq> 0" "d \<noteq> 0"
    "1 \<le> period" "period \<le> length a" "length b = length a"
  shows "calculate_period_performance a b period = Some (Fin 0)"
proof -
  have a1: "iloc_neg (map snd a) (Suc 0) = Inr (Fin c)" "iloc_neg (map snd a) period = Inr (Fin c)"
    using assms by (auto intro!: iloc_neg_const)
  have b1: "iloc_neg (map snd b) (Suc 0) = Inr (Fin d)" "iloc_neg (map snd b) period = Inr (Fin d)"
    using assms by (auto intro!: iloc_neg_const)
  show ?thesis
    using assms(3,4,6)
    by (simp add: calculate_period_performance_def calculate_period_performance_body_def
        a1 b1 try_bind_def pf_sub_def Let_def)
qed

lemma convert_zero: "convert_to_rs_scale (Fin 0) = 59"
  by (simp add: convert_to_rs_scale_def band_rating_def pf_ge_def try_bind_def)

text \<open>
  C5. A stock series and a benchmark series on the same 252 trading dates, each flat at a
  non-zero price: every one of the four period relative performances is 0, the total
  relative performance is 0, and the RS rating is exactly 59.
\<close>

theorem flat_series_rating:
  assumes "historical_data sd = Some stock" and "length stock = 252"
    and "distinct (map Date stock)" and "distinct (map Date bench)"
    and "set (map Date stock) = set (map Date bench)"
    and "list_all (\<lambda>b. Close b = Fin c) stock" and "list_all (\<lambda>b. Close b = Fin d) bench"
    and "c \<noteq> 0" and "d \<noteq> 0"
  shows "(case align_data stock bench of
            (a, b) \<Rightarrow>
              list_all (\<lambda>period. calculate_period_performance a b period = Some (Fin 0)) periods \<and>
              py_sum (weighted_period_performances a b) = Fin 0) \<and>
         calculate_rs_rating sd (Some bench) = 59"
proof -
  have ne: "stock \<noteq> []" using assms(2) by auto
  from align_data_flat[OF ne assms(3,4,5,6,7)] assms(2)
  obtain a b where ab: "align_data stock bench = (a, b)" and la: "length a = 252"
    and lb: "length b = 252" and va: "\<forall>p\<in>set a. snd p = Fin c" and vb: "\<forall>p\<in>set b. snd p = Fin d"
    by auto
  have pp: "calculate_period_performance a b period = Some (Fin 0)"
    if "1 \<le> period" "period \<le> 252" for period
    using that la lb by (intro period_performance_flat[OF va vb assms(8,9)]) auto
  have all: "list_all (\<lambda>period. calculate_period_performance a b period = Some (Fin 0)) periods"
    by (simp add: periods_def pp)
  have w: "weighted_period_performances a b = [Fin 0, Fin 0, Fin 0, Fin 0]"
    by (simp add: weighted_period_performances_def periods_def weights_def pp)
  have s: "py_sum (weighted_period_performances a b) = Fin 0"
    by (simp add: w py_sum_def)
  have "calculate_rs_rating sd (Some bench) = 59"
    using assms(1) ne la by (simp add: calculate_rs_rating_def ab w py_sum_def convert_zero)
  with all s ab show ?thesis by simp
qed

lemma flat_frame_dates: "map Date (flat_frame n c) = map int [0..<n]"
  by (simp add: flat_frame_def sample_bar_def comp_def)

theorem flat_series_rating_witness:
  "calculate_rs_rating (with_history (flat_frame 252 100)) (Some (flat_frame 252 100)) = 59"
proof -
  have h1: "historical_data (with_history (flat_frame 252 100)) = Some (flat_frame 252 100)"
    by (simp add: with_history_def)
  have h2: "length (flat_frame 252 100) = 252" by (simp add: flat_frame_def)
  have h3: "distinct (map Date (flat_frame 252 100))"
    unfolding flat_frame_dates by (simp add: distinct_map)
  have h5: "set (map Date (flat_frame 252 100)) = set (map Date (flat_frame 252 100))" by simp
  have h6: "list_all (\<lambda>b. Close b = Fin 100) (flat_frame 252 100)"
    by (simp add: flat_frame_def sample_bar_def list_all_iff)
  have h8: "(100::real) \<noteq> 0" by simp
  show ?thesis using flat_series_rating [OF h1 h2 h3 h3 h5 h6 h6 h8 h8] by simp
qed

section \<open>The indicator engine\<close>

text \<open>
  With at least 50 bars the computation either divides by a zero 52-week extreme, and
  reports the error, or returns the snapshot.
\<close>

lemma iloc_neg_last: "xs \<noteq> [] \<Longrightarrow> iloc_neg xs (Suc 0) = Inr (last xs)"
  by (simp add: iloc_neg_def last_conv_nth Suc_le_eq)

lemma price_vs_ma_total: "price_vs_ma cp m = Inr (pct_vs_ma cp m)"
proof (cases "pf_gt m (Fin 0)")
  case True
  then have "m \<noteq> Fin 0" by (auto simp: pf_gt_def)
  with True show ?thesis by (simp add: price_vs_ma_def pct_vs_ma_def py_div_def try_bind_def)
next
  case False
  then show ?thesis by (simp add: price_vs_ma_def pct_vs_ma_def)
qed

lemma calculate_indicators_body_short:
  "length hist < 50 \<Longrightarrow> calculate_indicators_body hist s = Inr (error_dict s ''Insufficient data'')"
  by (simp add: calculate_indicators_body_def error_dict_def)

lemma calculate_indicators_body_long:
  assumes "50 \<le> length hist"
  shows "calculate_indicators_body hist s =
           (if high_52w hist = Fin 0 \<or> low_52w hist = Fin 0 then Inl ZeroDivisionError
            else Inr (snapshot_of hist s))"
proof -
  have ne: "map Close hist \<noteq> []" using assms by auto
  have c: "iloc_neg (map Close hist) (Suc 0) = Inr (latest_close hist)"
    unfolding latest_close_def using ne by (rule iloc_neg_last)
  have m: "iloc_neg (rolling_mean w mp (map Close hist)) (Suc 0) = Inr (latest_ma w mp hist)" for w mp
    unfolding latest_ma_def using ne by (intro iloc_neg_last) (simp add: rolling_mean_def)
  have nl: "\<not> length hist < 50" using assms by simp
  show ?thesis
    unfolding calculate_indicators_body_def
    by (simp only: nl if_False One_nat_def c m try_bind_def sum.case Let_def
          high_52w_def[symmetric] low_52w_def[symmetric] ma_or_price_def[symmetric]
          price_vs_ma_total py_div_def case_prod_beta snapshot_of_def)
       (simp add: snapshot_of_def)
qed

subsection \<open>Means of shifted windows\<close>

text \<open>
  In a strictly increasing list, a window that starts no earlier and ends later than
  another has the larger mean: dropping the smallest elements cannot lower a mean, and
  appending larger elements raises it.
\<close>

lemma below_all_sum: "(\<forall>y\<in>set M. x \<le> y) \<Longrightarrow> x * real (length M) \<le> sum_list M"
  by (induction M) (auto simp: algebra_simps)

lemma sum_below_all: "(\<forall>x\<in>set L. x * m \<le> s) \<Longrightarrow> sum_list L * m \<le> s * real (length L)"
  by (induction L) (auto simp: algebra_simps)

lemma sum_strictly_below:
  "M \<noteq> [] \<Longrightarrow> (\<forall>x\<in>set M. x < y) \<Longrightarrow> sum_list M < y * real (length M)"
  by (induction M rule: list_nonempty_induct) (auto simp: algebra_simps)

lemma strictly_below_sum:
  "R \<noteq> [] \<Longrightarrow> (\<forall>y\<in>set R. s < y * m) \<Longrightarrow> s * real (length R) < sum_list R * m"
  by (induction R rule: list_nonempty_induct) (auto simp: algebra_simps)

lemma mean_prepend_le:
  assumes "\<forall>x\<in>set L. \<forall>y\<in>set M. x \<le> y" "M \<noteq> []"
  shows "list_mean (L @ M) \<le> list_mean M"
proof -
  define l m where "l = real (length L)" and "m = real (length M)"
  have "x * real (length M) \<le> sum_list M" if "x \<in> set L" for x
    using assms(1) that by (intro below_all_sum) auto
  then have "sum_list L * real (length M) \<le> sum_list M * real (length L)"
    by (intro sum_below_all) auto
  then have ineq: "sum_list L * m \<le> sum_list M * l" by (simp add: l_def m_def)
  have pos: "0 < m" "0 \<le> l" using assms(2) by (simp_all add: l_def m_def)
  have "(sum_list L + sum_list M) / (l + m) \<le> sum_list M / m"
    using ineq pos by (simp add: field_simps)
  then show ?thesis by (simp add: list_mean_def l_def m_def)
qed

lemma mean_append_lt:
  assumes "\<forall>x\<in>set M. \<forall>y\<in>set R. x < y" "M \<noteq> []" "R \<noteq> []"
  shows "list_mean M < list_mean (M @ R)"
proof -
  define m r where "m = real (length M)" and "r = real (length R)"
  have "sum_list M < y * real (length M)" if "y \<in> set R" for y
    using assms(1,2) that by (intro sum_strictly_below) auto
  then have "sum_list M * real (length R) < sum_list R * real (length M)"
    using assms(3) by (intro strictly_below_sum) auto
  then have ineq: "sum_list M * r < sum_list R * m" by (simp add: m_def r_def)
  have pos: "0 < m" "0 < r" using assms(2,3) by (simp_all add: m_def r_def)
  have "sum_list M / m < (sum_list M + sum_list R) / (m + r)"
    using ineq pos by (simp add: field_simps)
  then show ?thesis by (simp add: list_mean_def m_def r_def)
qed

lemma sorted_parts:
  fixes X :: "real list"
  shows "sorted_wrt (<) (X @ L @ M @ R) \<Longrightarrow>
    (\<forall>x\<in>set L. \<forall>y\<in>set M. x \<le> y) \<and> (\<forall>x\<in>set M. \<forall>y\<in>set R. x < y)"
  by (auto simp: sorted_wrt_append less_imp_le)

lemma split_windows:
  assumes a: "a \<le> b" and b: "b < e" and e: "e < length rs"
  shows "\<exists>X L M R. rs = X @ L @ M @ R \<and> drop a (take e rs) = L @ M \<and> drop b rs = M @ R \<and>
           M \<noteq> [] \<and> R \<noteq> []"
proof -
  let ?T = "take e rs"
  let ?L = "take (b - a) (drop a ?T)" and ?M = "drop b ?T" and ?R = "drop e rs"
  have A: "drop a ?T = ?L @ ?M"
  proof -
    have "?M = drop (b - a) (drop a ?T)" using a by simp
    then show ?thesis by (simp only: append_take_drop_id)
  qed
  have B: "drop b rs = ?M @ ?R"
  proof -
    have "drop b (?T @ ?R) = drop b ?T @ drop (b - length ?T) ?R" by (rule drop_append)
    moreover have "b - length ?T = 0" using b e by simp
    ultimately show ?thesis by simp
  qed
  have whole: "rs = take a ?T @ ?L @ ?M @ ?R"
  proof -
    have "take a ?T @ drop a ?T = ?T" by (rule append_take_drop_id)
    then have "take a ?T @ ?L @ ?M = ?T" using A by simp
    then have "(take a ?T @ ?L @ ?M) @ ?R = rs" by (simp only: append_take_drop_id)
    then show ?thesis by simp
  qed
  have Mne: "?M \<noteq> []" using b e by simp
  have Rne: "?R \<noteq> []" using e by simp
  from whole A B Mne Rne show ?thesis by blast
qed

lemma window_mean_shift:
  assumes sorted: "sorted_wrt (<) (rs :: real list)"
    and a: "a \<le> b" and b: "b < e" and e: "e < length rs"
  shows "list_mean (drop a (take e rs)) < list_mean (drop b rs)"
proof -
  from split_windows[OF a b e] obtain X L M R where
    whole: "rs = X @ L @ M @ R" and A: "drop a (take e rs) = L @ M" and B: "drop b rs = M @ R"
    and ne: "M \<noteq> []" "R \<noteq> []" by blast
  from sorted whole have "sorted_wrt (<) (X @ L @ M @ R)" by blast
  then have LM: "\<forall>x\<in>set L. \<forall>y\<in>set M. x \<le> y" and MR: "\<forall>x\<in>set M. \<forall>y\<in>set R. x < y"
    using sorted_parts by blast+
  have "list_mean (L @ M) \<le> list_mean M" using LM ne(1) by (rule mean_prepend_le)
  also have "\<dots> < list_mean (M @ R)" using MR ne by (rule mean_append_lt)
  finally show ?thesis using A B by simp
qed

subsection \<open>Trend flags on increasing closes\<close>

lemma foldl_pf_add_Fin: "foldl pf_add (Fin a) (map Fin ws) = Fin (a + sum_list ws)"
  by (induction ws arbitrary: a) (simp_all add: add.assoc)

lemma py_sum_Fin: "py_sum (map Fin ws) = Fin (sum_list ws)"
  by (simp add: py_sum_def foldl_pf_add_Fin)

lemma window_mean_Fin:
  assumes "mp \<le> length ws" "ws \<noteq> []"
  shows "window_mean mp (map Fin ws) = Fin (list_mean ws)"
proof -
  have "filter is_finite (map Fin ws) = map Fin ws" by (simp add: filter_id_conv)
  then show ?thesis
    using assms by (simp add: window_mean_def Let_def py_sum_Fin list_mean_def)
qed

lemma window_at_map: "window_at w (map f xs) i = map f (window_at w xs i)"
  by (simp add: window_at_def drop_map take_map)

lemma rolling_mean_nth:
  "i < length xs \<Longrightarrow> rolling_mean w mp xs ! i = window_mean mp (window_at w xs i)"
  by (simp add: rolling_mean_def)

lemma trending_up_increasing:
  assumes sorted: "sorted_wrt (<) rs"
    and n: "20 < length rs" and w: "20 < w"
    and mp: "mp \<le> min (length rs - 20) w"
  shows "is_trending_up (rolling_mean w mp (map Fin rs)) 20"
proof -
  let ?n = "length rs"
  let ?ma = "rolling_mean w mp (map Fin rs)"
  let ?A = "drop (?n - 20 - w) (take (?n - 20) rs)" and ?B = "drop (?n - w) rs"
  have len: "length ?ma = ?n" by (simp add: rolling_mean_def)
  have wa: "window_at w rs (?n - 21) = ?A"
  proof -
    have "Suc (?n - 21) = ?n - 20" using n by simp
    then show ?thesis by (simp add: window_at_def)
  qed
  have wb: "window_at w rs (?n - Suc 0) = ?B"
  proof -
    have "Suc (?n - Suc 0) = ?n" using n by simp
    then show ?thesis by (simp add: window_at_def)
  qed
  have lA: "length ?A = min (?n - 20) w" using n by auto
  have lB: "length ?B = min ?n w" using n by auto
  have Ane: "?A \<noteq> []" using lA n w by (metis length_0_conv min_less_iff_conj not_less_zero zero_less_diff less_trans zero_less_numeral)
  have Bne: "?B \<noteq> []" using lB n w by auto
  have older: "?ma ! (?n - 21) = Fin (list_mean ?A)"
  proof -
    have "?ma ! (?n - 21) = window_mean mp (map Fin ?A)"
      using n by (simp add: rolling_mean_nth window_at_map wa)
    also have "\<dots> = Fin (list_mean ?A)"
      using mp lA Ane by (intro window_mean_Fin) auto
    finally show ?thesis .
  qed
  have recent: "?ma ! (?n - Suc 0) = Fin (list_mean ?B)"
  proof -
    have "?ma ! (?n - Suc 0) = window_mean mp (map Fin ?B)"
      using n by (simp add: rolling_mean_nth window_at_map wb)
    also have "\<dots> = Fin (list_mean ?B)"
      using mp lB Bne by (intro window_mean_Fin) auto
    finally show ?thesis .
  qed
  have lt: "list_mean ?A < list_mean ?B"
    using sorted n w by (intro window_mean_shift) auto
  have i1: "iloc_neg ?ma (Suc 0) = Inr (?ma ! (?n - Suc 0))"
    using n by (simp add: iloc_neg_def len)
  have i21: "iloc_neg ?ma 21 = Inr (?ma ! (?n - 21))"
    using n by (simp add: iloc_neg_def len)
  show ?thesis
    using n lt
    by (simp add: is_trending_up_def is_trending_up_body_def len i1 i21 try_bind_def older
        recent pf_gt_def)
qed

subsection \<open>When a snapshot is returned\<close>

text \<open>
  The 52-week extremes are \<open>NaN\<close> or one of the values of the column, so they are
  non-zero when no bar has a zero high or low.
\<close>

lemma fold_pick_mem: "fold (\<lambda>a m. if P a m then a else m) vs v \<in> set (v # vs)"
proof (induction vs arbitrary: v)
  case Nil
  show ?case by simp
next
  case (Cons a vs)
  have "fold (\<lambda>a m. if P a m then a else m) vs (if P a v then a else v) \<in>
          set ((if P a v then a else v) # vs)"
    by (rule Cons.IH)
  then show ?case by (auto split: if_splits)
qed

lemma series_max_cases: "series_max xs = NaN \<or> series_max xs \<in> set xs"
proof (cases "filter (\<lambda>v. \<not> isna v) xs")
  case Nil
  then show ?thesis by (simp add: series_max_def)
next
  case (Cons v vs)
  then have "series_max xs \<in> set (v # vs)"
    using fold_pick_mem[of "\<lambda>a m. pf_gt a m" vs v] by (simp add: series_max_def)
  moreover have "set (v # vs) \<subseteq> set xs"
    using filter_is_subset[of "\<lambda>v. \<not> isna v" xs] unfolding Cons .
  ultimately show ?thesis by blast
qed

lemma series_min_cases: "series_min xs = NaN \<or> series_min xs \<in> set xs"
proof (cases "filter (\<lambda>v. \<not> isna v) xs")
  case Nil
  then show ?thesis by (simp add: series_min_def)
next
  case (Cons v vs)
  then have "series_min xs \<in> set (v # vs)"
    using fold_pick_mem[of "\<lambda>a m. pf_lt a m" vs v] by (simp add: series_min_def)
  moreover have "set (v # vs) \<subseteq> set xs"
    using filter_is_subset[of "\<lambda>v. \<not> isna v" xs] unfolding Cons .
  ultimately show ?thesis by blast
qed

lemma set_tail: "set (tail n xs) \<subseteq> set xs"
  by (simp add: tail_def set_drop_subset)

lemma nonzero_extremes:
  assumes "nonzero_high_low hist"
  shows "high_52w hist \<noteq> Fin 0 \<and> low_52w hist \<noteq> Fin 0"
proof -
  have h: "Fin 0 \<notin> set (map High hist)" and l: "Fin 0 \<notin> set (map Low hist)"
    using assms by (auto simp: nonzero_high_low_def list_all_iff)
  have "high_52w hist \<noteq> Fin 0"
    using series_max_cases[of "tail (min 252 (length hist)) (map High hist)"] h
      set_tail[of "min 252 (length hist)" "map High hist"]
    unfolding high_52w_def by auto
  moreover have "low_52w hist \<noteq> Fin 0"
    using series_min_cases[of "tail (min 252 (length hist)) (map Low hist)"] l
      set_tail[of "min 252 (length hist)" "map Low hist"]
    unfolding low_52w_def by auto
  ultimately show ?thesis by simp
qed

lemma calculate_indicators_short:
  "length hist < 50 \<Longrightarrow> calculate_indicators hist s = error_dict s ''Insufficient data''"
  by (simp add: calculate_indicators_def calculate_indicators_body_short)

lemma calculate_indicators_body_success:
  assumes "50 \<le> length hist" "nonzero_high_low hist"
  shows "calculate_indicators_body hist s = Inr (snapshot_of hist s)"
proof -
  have "\<not> (high_52w hist = Fin 0 \<or> low_52w hist = Fin 0)"
    using nonzero_extremes[OF assms(2)] by simp
  then show ?thesis
    unfolding calculate_indicators_body_long[OF assms(1)] by (rule if_not_P)
qed

lemma calculate_indicators_success:
  assumes "50 \<le> length hist" "nonzero_high_low hist"
  shows "calculate_indicators hist s = snapshot_of hist s"
  unfolding calculate_indicators_def calculate_indicators_body_success[OF assms]
  by (rule sum.case)

lemma fully_populated_snapshot_of: "fully_populated (snapshot_of hist s)"
  by (simp add: fully_populated_def snapshot_of_def)

lemma error_dict_error: "error (error_dict s msg) = Some msg"
  by (simp add: error_dict_def)

lemma calculate_indicators_zero_extreme:
  assumes "50 \<le> length hist" "high_52w hist = Fin 0 \<or> low_52w hist = Fin 0"
  shows "calculate_indicators hist s = error_dict s ''float division by zero''"
proof -
  have "calculate_indicators_body hist s = Inl ZeroDivisionError"
    unfolding calculate_indicators_body_long[OF assms(1)] using assms(2) by (rule if_P)
  then show ?thesis
    by (simp add: calculate_indicators_def error_dict_def)
qed

lemma calculate_indicators_no_error:
  assumes "error (calculate_indicators hist s) = None"
  shows "50 \<le> length hist \<and> calculate_indicators hist s = snapshot_of hist s"
proof -
  have len: "50 \<le> length hist"
  proof (rule ccontr)
    assume "\<not> 50 \<le> length hist"
    then have "calculate_indicators hist s = error_dict s ''Insufficient data''"
      by (intro calculate_indicators_short) simp
    with assms show False by (simp add: error_dict_error)
  qed
  have "calculate_indicators hist s = snapshot_of hist s"
  proof (cases "high_52w hist = Fin 0 \<or> low_52w hist = Fin 0")
    case True
    from calculate_indicators_zero_extreme[OF len True, of s] assms
    show ?thesis by (simp add: error_dict_error)
  next
    case False
    then have "calculate_indicators_body hist s = Inr (snapshot_of hist s)"
      unfolding calculate_indicators_body_long[OF len] by (rule if_not_P)
    then show ?thesis by (simp add: calculate_indicators_def)
  qed
  with len show ?thesis by simp
qed

text \<open>
  C6. A series of exactly 49 bars yields the insufficient-data error dictionary, which
  holds the symbol and the error and no snapshot key. A series of exactly 50 bars in
  which no bar has a zero high or low yields a snapshot with every key present and no
  error.
\<close>

theorem indicator_boundary:
  "(length hist = 49 \<longrightarrow> calculate_indicators hist s = error_dict s ''Insufficient data'') \<and>
   (length hist = 50 \<and> nonzero_high_low hist \<longrightarrow>
      fully_populated (calculate_indicators hist s) \<and>
      calculate_indicators hist s = snapshot_of hist s)"
proof (intro conjI impI)
  assume "length hist = 49"
  then show "calculate_indicators hist s = error_dict s ''Insufficient data''"
    by (intro calculate_indicators_short) simp
next
  assume a: "length hist = 50 \<and> nonzero_high_low hist"
  then have eq: "calculate_indicators hist s = snapshot_of hist s"
    by (intro calculate_indicators_success) simp_all
  show "fully_populated (calculate_indicators hist s)"
    unfolding eq by (rule fully_populated_snapshot_of)
  show "calculate_indicators hist s = snapshot_of hist s" by (rule eq)
qed

lemma nonzero_high_low_flat: "c \<noteq> 0 \<Longrightarrow> nonzero_high_low (flat_frame n c)"
  by (simp add: nonzero_high_low_def flat_frame_def sample_bar_def list_all_iff)

lemma length_flat_frame: "length (flat_frame n c) = n"
  by (simp add: flat_frame_def)

theorem indicator_boundary_witness:
  "calculate_indicators (flat_frame 49 100) ''ACME'' = error_dict ''ACME'' ''Insufficient data'' \<and>
   fully_populated (calculate_indicators (flat_frame 50 100) ''ACME'') \<and>
   calculate_indicators (flat_frame 50 100) ''ACME'' = snapshot_of (flat_frame 50 100) ''ACME''"
proof -
  have h1: "length (flat_frame 49 100) = 49" by (rule length_flat_frame)
  have h2: "length (flat_frame 50 100) = 50 \<and> nonzero_high_low (flat_frame 50 100)"
    by (simp add: length_flat_frame nonzero_high_low_flat)
  have a: "calculate_indicators (flat_frame 49 100) ''ACME'' = error_dict ''ACME'' ''Insufficient data''"
    by (rule mp [OF conjunct1 [OF indicator_boundary] h1])
  have b: "fully_populated (calculate_indicators (flat_frame 50 100) ''ACME'') \<and>
      calculate_indicators (flat_frame 50 100) ''ACME'' = snapshot_of (flat_frame 50 100) ''ACME''"
    by (rule mp [OF conjunct2 [OF indicator_boundary] h2])
  from a b show ?thesis by (rule conjI)
qed

subsection \<open>Fallbacks\<close>

lemma volume_ratio_guard:
  "fst (volume_analysis hist) \<le> 0 \<Longrightarrow> snd (snd (volume_analysis hist)) = Fin 1"
  by (auto simp: volume_analysis_def volume_analysis_body_def try_bind_def split: sum.splits)

lemma volume_ratio_zero_mean:
  assumes "series_mean (tail 50 (map Volume hist)) = Fin 0"
  shows "snd (snd (volume_analysis hist)) = Fin 1"
  using assms
  by (auto simp: volume_analysis_def volume_analysis_body_def try_bind_def split: sum.splits)

lemma snapshot_fields:
  "price (snapshot_of hist s) = Some (py_round (latest_close hist) 2)"
  "ma_50 (snapshot_of hist s) = Some (py_round (ma_or_price 50 25 hist) 2)"
  "ma_150 (snapshot_of hist s) = Some (py_round (ma_or_price 150 75 hist) 2)"
  "ma_200 (snapshot_of hist s) = Some (py_round (ma_or_price 200 100 hist) 2)"
  "avg_volume (snapshot_of hist s) = Some (fst (volume_analysis hist))"
  "volume_ratio (snapshot_of hist s) = Some (py_round (snd (snd (volume_analysis hist))) 2)"
  "ma_50_trending_up (snapshot_of hist s) =
     Some (is_trending_up (rolling_mean 50 25 (map Close hist)) 20)"
  "ma_150_trending_up (snapshot_of hist s) =
     Some (is_trending_up (rolling_mean 150 75 (map Close hist)) 20)"
  "ma_200_trending_up (snapshot_of hist s) =
     Some (is_trending_up (rolling_mean 200 100 (map Close hist)) 20)"
  "error (snapshot_of hist s) = None"
  by (simp_all add: snapshot_of_def)

text \<open>
  C9. Whenever the indicator computation accepts a series and returns a snapshot (the
  series then has at least 50 bars), each reported moving average whose rolling mean is
  undefined equals the reported price, the latest close rounded to two decimals; and the
  volume ratio is 1 whenever the trailing 50-day average volume is zero. A rolling mean
  is undefined when its window holds fewer finite closes than its minimum number of
  periods, whether the history is short or the closes are \<open>NaN\<close> or infinite. The
  volume block is total: its division is guarded and its exceptions give the defaults.
\<close>

theorem fallback_invariants:
  assumes "error (calculate_indicators hist s) = None"
  shows "50 \<le> length hist \<and>
         price (calculate_indicators hist s) = Some (py_round (latest_close hist) 2) \<and>
         (isna (latest_ma 50 25 hist) \<longrightarrow>
            ma_50 (calculate_indicators hist s) = price (calculate_indicators hist s)) \<and>
         (isna (latest_ma 150 75 hist) \<longrightarrow>
            ma_150 (calculate_indicators hist s) = price (calculate_indicators hist s)) \<and>
         (isna (latest_ma 200 100 hist) \<longrightarrow>
            ma_200 (calculate_indicators hist s) = price (calculate_indicators hist s)) \<and>
         (series_mean (tail 50 (map Volume hist)) = Fin 0 \<longrightarrow>
            volume_ratio (calculate_indicators hist s) = Some (Fin 1)) \<and>
         (avg_volume (calculate_indicators hist s) = Some 0 \<longrightarrow>
            volume_ratio (calculate_indicators hist s) = Some (Fin 1))"
proof -
  from calculate_indicators_no_error [OF assms]
  have len: "50 \<le> length hist" and eq: "calculate_indicators hist s = snapshot_of hist s"
    by simp_all
  have p: "price (snapshot_of hist s) = Some (py_round (latest_close hist) 2)"
    by (rule snapshot_fields)
  have m: "isna (latest_ma w mp hist) \<Longrightarrow> ma_or_price w mp hist = latest_close hist" for w mp
    by (simp add: ma_or_price_def)
  have m50: "isna (latest_ma 50 25 hist) \<longrightarrow> ma_50 (snapshot_of hist s) = price (snapshot_of hist s)"
    by (simp add: snapshot_fields m)
  have m150: "isna (latest_ma 150 75 hist) \<longrightarrow> ma_150 (snapshot_of hist s) = price (snapshot_of hist s)"
    by (simp add: snapshot_fields m)
  have m200: "isna (latest_ma 200 100 hist) \<longrightarrow> ma_200 (snapshot_of hist s) = price (snapshot_of hist s)"
    by (simp add: snapshot_fields m)
  have v1: "series_mean (tail 50 (map Volume hist)) = Fin 0 \<longrightarrow>
            volume_ratio (snapshot_of hist s) = Some (Fin 1)"
    by (simp add: snapshot_fields volume_ratio_zero_mean round_half_even_def)
  have v2: "avg_volume (snapshot_of hist s) = Some 0 \<longrightarrow>
            volume_ratio (snapshot_of hist s) = Some (Fin 1)"
    by (simp add: snapshot_fields volume_ratio_guard round_half_even_def)
  from len p m50 m150 m200 v1 v2 show ?thesis unfolding eq by blast
qed

text \<open>
  The latest rolling mean is undefined when the closes hold fewer finite values than the
  minimum number of periods: too short a history, or too many \<open>NaN\<close> or infinite
  closes.
\<close>

lemma latest_ma_few_finite:
  assumes "hist \<noteq> []" "length (filter is_finite (map Close hist)) < mp"
  shows "isna (latest_ma w mp hist)"
proof -
  let ?xs = "map Close hist"
  let ?a = "Suc (length ?xs - Suc 0) - w"
  have ne: "[0..<length ?xs] \<noteq> []" using assms(1) by simp
  have full: "take (Suc (length ?xs - Suc 0)) ?xs = ?xs" using assms(1) by simp
  have win: "window_at w ?xs (length ?xs - Suc 0) = drop ?a ?xs"
    unfolding window_at_def full by (rule refl)
  have "latest_ma w mp hist = window_mean mp (window_at w ?xs (length ?xs - Suc 0))"
    unfolding latest_ma_def rolling_mean_def using ne by (simp add: last_map)
  then have eq: "latest_ma w mp hist = window_mean mp (drop ?a ?xs)"
    unfolding win .
  have "length (filter is_finite ?xs) =
          length (filter is_finite (take ?a ?xs)) + length (filter is_finite (drop ?a ?xs))"
    by (metis append_take_drop_id filter_append length_append)
  then have "length (filter is_finite (drop ?a ?xs)) < mp" using assms(2) by linarith
  then show ?thesis unfolding eq by (simp add: window_mean_def Let_def)
qed

lemma latest_ma_short:
  assumes "hist \<noteq> []" "length hist < mp"
  shows "isna (latest_ma w mp hist)"
proof -
  have a: "length (filter is_finite (map Close hist)) \<le> length (map Close hist)"
    by (rule length_filter_le)
  have b: "length (map Close hist) = length hist" by (rule length_map)
  from a b assms(2) have "length (filter is_finite (map Close hist)) < mp" by linarith
  with assms(1) show ?thesis by (rule latest_ma_few_finite)
qed

lemma py_sum_zeros: "py_sum (replicate n (Fin 0)) = Fin 0"
  by (induction n) (simp_all add: py_sum_def)

lemma series_mean_zeros: "0 < n \<Longrightarrow> series_mean (replicate n (Fin 0)) = Fin 0"
proof -
  assume "0 < n"
  then obtain k where n: "n = Suc k" by (cases n) auto
  have f: "filter (\<lambda>v. \<not> isna v) (replicate n (Fin 0)) = Fin 0 # replicate k (Fin 0)"
    by (simp add: n)
  have "py_sum (Fin 0 # replicate k (Fin 0)) = Fin 0"
    using py_sum_zeros [of "Suc k"] by simp
  then show ?thesis
    unfolding series_mean_def f by simp
qed

lemma zero_volume_frame_props:
  "length (zero_volume_frame n) = n"
  "nonzero_high_low (zero_volume_frame n)"
  "map Volume (zero_volume_frame n) = replicate n (Fin 0)"
  by (simp_all add: zero_volume_frame_def sample_bar_def nonzero_high_low_def list_all_iff
      comp_def map_replicate_const)

lemma infinite_close_frame_props:
  "length infinite_close_frame = 50"
  "nonzero_high_low infinite_close_frame"
  by (simp_all add: infinite_close_frame_def sample_bar_def nonzero_high_low_def list_all_iff)

lemma infinite_close_frame_closes:
  "map Close infinite_close_frame = map (\<lambda>i. PInf) [0..<26] @ map (\<lambda>i. Fin 100) [26..<50]"
  by (simp add: infinite_close_frame_def sample_bar_def comp_def)

lemma infinite_close_frame_finite:
  "length (filter is_finite (map Close infinite_close_frame)) = 24"
  unfolding infinite_close_frame_closes by (simp add: filter_map comp_def)

lemma infinite_close_frame_latest: "latest_close infinite_close_frame = Fin 100"
  unfolding latest_close_def infinite_close_frame_closes by (simp add: last_map)

theorem fallback_invariants_witness:
  "error (calculate_indicators (zero_volume_frame 50) ''ACME'') = None \<and>
   price (calculate_indicators (zero_volume_frame 50) ''ACME'') =
     Some (py_round (latest_close (zero_volume_frame 50)) 2) \<and>
   ma_150 (calculate_indicators (zero_volume_frame 50) ''ACME'') =
     price (calculate_indicators (zero_volume_frame 50) ''ACME'') \<and>
   ma_200 (calculate_indicators (zero_volume_frame 50) ''ACME'') =
     price (calculate_indicators (zero_volume_frame 50) ''ACME'') \<and>
   volume_ratio (calculate_indicators (zero_volume_frame 50) ''ACME'') = Some (Fin 1) \<and>
   error (calculate_indicators infinite_close_frame ''ACME'') = None \<and>
   price (calculate_indicators infinite_close_frame ''ACME'') = Some (Fin 100) \<and>
   ma_50 (calculate_indicators infinite_close_frame ''ACME'') = Some (Fin 100)"
proof -
  let ?h = "zero_volume_frame 50"
  have ne: "?h \<noteq> []" using zero_volume_frame_props(1)[of 50] by auto
  have "calculate_indicators ?h ''ACME'' = snapshot_of ?h ''ACME''"
    by (rule calculate_indicators_success) (simp_all add: zero_volume_frame_props)
  then have h: "error (calculate_indicators ?h ''ACME'') = None"
    by (simp add: snapshot_fields)
  have n150: "isna (latest_ma 150 75 ?h)"
    using ne by (rule latest_ma_short) (simp add: zero_volume_frame_props)
  have n200: "isna (latest_ma 200 100 ?h)"
    using ne by (rule latest_ma_short) (simp add: zero_volume_frame_props)
  have v: "series_mean (tail 50 (map Volume ?h)) = Fin 0"
    by (simp add: zero_volume_frame_props tail_def series_mean_zeros)
  let ?g = "infinite_close_frame"
  have neg: "?g \<noteq> []" using infinite_close_frame_props(1) by auto
  have "calculate_indicators ?g ''ACME'' = snapshot_of ?g ''ACME''"
    by (rule calculate_indicators_success) (simp_all add: infinite_close_frame_props)
  then have g: "error (calculate_indicators ?g ''ACME'') = None"
    by (simp add: snapshot_fields)
  have few: "length (filter is_finite (map Close ?g)) < 25"
    unfolding infinite_close_frame_finite by simp
  have n50: "isna (latest_ma 50 25 ?g)"
    using neg few by (rule latest_ma_few_finite)
  have lc: "py_round (latest_close ?g) 2 = Fin 100"
    by (simp add: infinite_close_frame_latest round_half_even_def)
  from fallback_invariants [OF h] h n150 n200 v
  have first:
    "error (calculate_indicators ?h ''ACME'') = None \<and>
     price (calculate_indicators ?h ''ACME'') = Some (py_round (latest_close ?h) 2) \<and>
     ma_150 (calculate_indicators ?h ''ACME'') = price (calculate_indicators ?h ''ACME'') \<and>
     ma_200 (calculate_indicators ?h ''ACME'') = price (calculate_indicators ?h ''ACME'') \<and>
     volume_ratio (calculate_indicators ?h ''ACME'') = Some (Fin 1)"
    by blast
  from fallback_invariants [OF g] g n50 lc
  have second:
    "error (calculate_indicators ?g ''ACME'') = None \<and>
     price (calculate_indicators ?g ''ACME'') = Some (Fin 100) \<and>
     ma_50 (calculate_indicators ?g ''ACME'') = Some (Fin 100)"
    by simp
  from first second show ?thesis by blast
qed

subsection \<open>Rising series\<close>

lemma trending_flags_increasing:
  assumes "200 \<le> length hist" "map Close hist = map Fin rs" "sorted_wrt (<) rs"
  shows "is_trending_up (rolling_mean 50 25 (map Close hist)) 20"
    and "is_trending_up (rolling_mean 150 75 (map Close hist)) 20"
    and "is_trending_up (rolling_mean 200 100 (map Close hist)) 20"
proof -
  have n: "200 \<le> length rs" using assms(1,2) by (metis length_map)
  show "is_trending_up (rolling_mean 50 25 (map Close hist)) 20"
    unfolding assms(2) using n by (intro trending_up_increasing assms(3)) simp_all
  show "is_trending_up (rolling_mean 150 75 (map Close hist)) 20"
    unfolding assms(2) using n by (intro trending_up_increasing assms(3)) simp_all
  show "is_trending_up (rolling_mean 200 100 (map Close hist)) 20"
    unfolding assms(2) using n by (intro trending_up_increasing assms(3)) simp_all
qed

text \<open>
  C8. For every series of at least 200 bars whose closing prices are finite and strictly
  increasing, the three trend flags that the indicator computation derives are true and
  criterion 3 passes on the 200-day flag; whenever the computation returns a snapshot,
  the flags stored in it are true and criterion 3 passes on the stored flag.
\<close>

theorem rising_series_trend_flags:
  assumes "200 \<le> length hist" and "map Close hist = map Fin rs" and "sorted_wrt (<) rs"
  shows "is_trending_up (rolling_mean 50 25 (map Close hist)) 20 \<and>
         is_trending_up (rolling_mean 150 75 (map Close hist)) 20 \<and>
         is_trending_up (rolling_mean 200 100 (map Close hist)) 20 \<and>
         passes (check_ma_200_trending_up
                   (is_trending_up (rolling_mean 200 100 (map Close hist)) 20)) \<and>
         (error (calculate_indicators hist s) = None \<longrightarrow>
            ma_50_trending_up (calculate_indicators hist s) = Some True \<and>
            ma_150_trending_up (calculate_indicators hist s) = Some True \<and>
            ma_200_trending_up (calculate_indicators hist s) = Some True \<and>
            passes (check_ma_200_trending_up
                      (dict_get (ma_200_trending_up (calculate_indicators hist s)) False)))"
proof -
  note t = trending_flags_increasing [OF assms]
  have c3: "passes (check_ma_200_trending_up
                      (is_trending_up (rolling_mean 200 100 (map Close hist)) 20))"
    using t(3) by (simp add: passes_simps)
  have snap: "ma_50_trending_up (calculate_indicators hist s) = Some True \<and>
              ma_150_trending_up (calculate_indicators hist s) = Some True \<and>
              ma_200_trending_up (calculate_indicators hist s) = Some True \<and>
              passes (check_ma_200_trending_up
                        (dict_get (ma_200_trending_up (calculate_indicators hist s)) False))"
    if "error (calculate_indicators hist s) = None"
  proof -
    from calculate_indicators_no_error [OF that]
    have eq: "calculate_indicators hist s = snapshot_of hist s" by simp
    show ?thesis
      unfolding eq using t by (simp add: snapshot_fields dict_get_def passes_simps)
  qed
  from t c3 snap show ?thesis by blast
qed

lemma rising_frame_props:
  "length (rising_frame n) = n"
  "nonzero_high_low (rising_frame n)"
  "map Close (rising_frame n) = map Fin (map (\<lambda>i. 100 + real i) [0..<n])"
  by (simp_all add: rising_frame_def sample_bar_def nonzero_high_low_def list_all_iff comp_def)

lemma rising_closes_sorted: "sorted_wrt (<) (map (\<lambda>i. 100 + real i) [0..<n])"
proof -
  have "sorted_wrt (<) [0..<n]" by (rule sorted_wrt_upt)
  then have "sorted_wrt (\<lambda>x y. 100 + real x < 100 + real y) [0..<n]"
    by (rule sorted_wrt_mono_rel[rotated]) simp
  then show ?thesis by (simp add: sorted_wrt_map)
qed

theorem rising_series_trend_flags_witness:
  "error (calculate_indicators (rising_frame 200) ''ACME'') = None \<and>
   ma_50_trending_up (calculate_indicators (rising_frame 200) ''ACME'') = Some True \<and>
   ma_150_trending_up (calculate_indicators (rising_frame 200) ''ACME'') = Some True \<and>
   ma_200_trending_up (calculate_indicators (rising_frame 200) ''ACME'') = Some True \<and>
   passes (check_ma_200_trending_up
             (dict_get (ma_200_trending_up (calculate_indicators (rising_frame 200) ''ACME''))
                False))"
proof -
  let ?h = "rising_frame 200"
  have h1: "200 \<le> length ?h" by (simp add: rising_frame_props)
  have h2: "map Close ?h = map Fin (map (\<lambda>i. 100 + real i) [0..<200])"
    by (rule rising_frame_props)
  have h3: "sorted_wrt (<) (map (\<lambda>i. 100 + real i) [0..<200])"
    by (rule rising_closes_sorted)
  have "calculate_indicators ?h ''ACME'' = snapshot_of ?h ''ACME''"
    by (rule calculate_indicators_success) (simp_all add: rising_frame_props)
  then have e: "error (calculate_indicators ?h ''ACME'') = None"
    by (simp add: snapshot_fields)
  from rising_series_trend_flags [OF h1 h2 h3, of "''ACME''"] e show ?thesis by blast
qed

end
